theory Spec2Isabelle
  imports Main "HOL-Library.Word"
begin

section \<open>The TPM security client of security/tpm/src/tpm.ts\<close>

text \<open>
  The client drives a TPM through tss.js, one command after the other, each command
  answered through a callback.  The model threads the module's state through the
  commands in the order in which the source's nested callbacks issue them: a command's
  callback runs once the module has answered it, on a later turn of the event loop, so
  the statements the source writes after an asynchronous call have run by then, and an
  exception raised inside a callback is not caught by a \<^verbatim>\<open>try\<close> around the call that
  started the chain.  What the source writes to \<^verbatim>\<open>debug\<close> and to the console is left out;
  an exception raised while the text to write is computed is not.
\<close>

subsection \<open>Data\<close>

type_synonym byte = "8 word"
type_synonym buffer = "byte list"
type_synonym tpm_handle = "32 word"
type_synonym tpm_rc = "32 word"
type_synonym tpm_alg = "16 word"

text \<open>The constants of tss.js that the source names (their values are those of the
  TPM 2.0 library specification, part 2).\<close>

definition TPM_RC_SUCCESS :: tpm_rc where "TPM_RC_SUCCESS = 0x000"
definition TPM_RC_HANDLE :: tpm_rc where "TPM_RC_HANDLE = 0x08B"
definition TPM_RC_NV_DEFINED :: tpm_rc where "TPM_RC_NV_DEFINED = 0x14C"
definition TPM_RC_FAILURE :: tpm_rc where "TPM_RC_FAILURE = 0x101"

definition Owner :: tpm_handle where "Owner = 0x40000001"
definition TPM_RH_NULL :: tpm_handle where "TPM_RH_NULL = 0x40000007"
definition Endorsement :: tpm_handle where "Endorsement = 0x4000000B"

definition TPM_ALG_AES :: tpm_alg where "TPM_ALG_AES = 0x0006"
definition TPM_ALG_SHA256 :: tpm_alg where "TPM_ALG_SHA256 = 0x000B"
definition TPM_ALG_CFB :: tpm_alg where "TPM_ALG_CFB = 0x0043"

definition TPM_CAP_TPM_PROPERTIES :: "32 word" where "TPM_CAP_TPM_PROPERTIES = 6"
definition TPM_PT_INPUT_BUFFER :: "32 word" where "TPM_PT_INPUT_BUFFER = 0x10D"

text \<open>\<^verbatim>\<open>TPMT_PUBLIC\<close>: the public area of a key.  The parameter block is the RSA one of
  the two templates or the keyed-hash one whose scheme carries the hash algorithm that
  \<^verbatim>\<open>_signData\<close> reads.\<close>

datatype tpm_parms =
    TPMS_RSA_PARMS tpm_alg nat tpm_alg nat nat
  | TPMS_KEYEDHASH_PARMS tpm_alg

record tpmt_public =
  nameAlg :: tpm_alg
  objectAttributes :: "32 word"
  authPolicy :: buffer
  parameters :: tpm_parms
  unique :: buffer

definition ekPersistentHandle :: tpm_handle where "ekPersistentHandle = 0x81010001"
definition srkPersistentHandle :: tpm_handle where "srkPersistentHandle = 0x81000001"
definition idKeyPersistentHandle :: tpm_handle where "idKeyPersistentHandle = 0x81000100"

text \<open>The two templates; the attribute words are the disjunctions of the
  \<^verbatim>\<open>TPMA_OBJECT\<close> flags that the source lists.\<close>

definition ekTemplate :: tpmt_public where
  "ekTemplate =
     \<lparr> nameAlg = TPM_ALG_SHA256,
       objectAttributes = 0x300B2,
       authPolicy =
         [0x83, 0x71, 0x97, 0x67, 0x44, 0x84, 0xb3, 0xf8, 0x1a, 0x90, 0xcc, 0x8d, 0x46, 0xa5,
          0xd7, 0x24, 0xfd, 0x52, 0xd7, 0x6e, 0x06, 0x52, 0x0b, 0x64, 0xf2, 0xa1, 0xda, 0x1b,
          0x33, 0x14, 0x69, 0xaa],
       parameters = TPMS_RSA_PARMS TPM_ALG_AES 128 TPM_ALG_CFB 2048 0,
       unique = [] \<rparr>"

definition srkTemplate :: tpmt_public where
  "srkTemplate =
     \<lparr> nameAlg = TPM_ALG_SHA256,
       objectAttributes = 0x30472,
       authPolicy = [],
       parameters = TPMS_RSA_PARMS TPM_ALG_AES 128 TPM_ALG_CFB 2048 0,
       unique = [] \<rparr>"

subsection \<open>The module behind the TPM command interface\<close>

text \<open>The commands the client issues, with the arguments it passes; the module keeps
  them in the order of issue.\<close>

datatype tpm_cmd =
    Cmd_Connect
  | Cmd_ReadPublic tpm_handle
  | Cmd_CreatePrimary tpm_handle tpmt_public
  | Cmd_EvictControl tpm_handle tpm_handle tpm_handle
  | Cmd_FlushContext tpm_handle
  | Cmd_GetCapability "32 word" "32 word" nat
  | Cmd_HMAC tpm_handle buffer "tpm_alg option"
  | Cmd_HMAC_Start tpm_handle buffer "tpm_alg option"
  | Cmd_SequenceUpdate tpm_handle buffer
  | Cmd_SequenceComplete tpm_handle buffer tpm_handle
  | Cmd_GetRandom nat
  | Cmd_StartAuthSession buffer
  | Cmd_PolicySecret tpm_handle tpm_handle
  | Cmd_ActivateCredential tpm_handle tpm_handle buffer buffer
  | Cmd_Import tpm_handle buffer tpmt_public buffer buffer nat
  | Cmd_Load tpm_handle buffer tpmt_public

record tpm_object =
  objPublic :: tpmt_public
  objPrivate :: buffer

text \<open>
  Modelled from the spec: the TPM command interface (section 6; tss.js and the module
  itself are not part of the repository).  Every command reports a response code, read
  back with \<^verbatim>\<open>getLastResponseCode\<close>.  The module holds persistent objects, transient
  objects, open hash sequences and sessions by handle.  Its firmware functions (\<open>fw_\<close>) stand for
  the cryptography, which the client never looks into.  \<open>forced\<close> is the module's verdict
  on the command it receives as its n-th one: a code other than success there makes that
  command fail with this code and without effect, whatever its arguments, so that every
  device error a run can meet is an input of the model.  A command that fails answers
  with an empty buffer, the null handle or no public area.  \<open>properties\<close> is the
  module's answer to the capability query.
\<close>

record tpm_module =
  persistent :: "tpm_handle \<Rightarrow> tpm_object option"
  transient :: "tpm_handle \<Rightarrow> tpm_object option"
  sequences :: "tpm_handle \<Rightarrow> (buffer \<times> tpm_alg option \<times> buffer) option"
  sessions :: "tpm_handle \<Rightarrow> buffer option"
  properties :: "(32 word \<times> 32 word) list"
  forced :: "nat \<Rightarrow> tpm_rc"
  fw_primary :: "tpm_handle \<Rightarrow> tpmt_public \<Rightarrow> buffer"
  fw_hmac :: "buffer \<Rightarrow> tpm_alg option \<Rightarrow> buffer \<Rightarrow> buffer"
  fw_random :: "nat \<Rightarrow> buffer"
  fw_activate :: "buffer \<Rightarrow> buffer \<Rightarrow> buffer"
  fw_import :: "buffer \<Rightarrow> tpmt_public \<Rightarrow> buffer \<Rightarrow> buffer \<Rightarrow> buffer"
  lastResponseCode :: tpm_rc
  issued :: "tpm_cmd list"

definition verdict :: "tpm_module \<Rightarrow> tpm_rc \<Rightarrow> tpm_rc" where
  "verdict t natural =
     (if forced t (length (issued t)) \<noteq> TPM_RC_SUCCESS then forced t (length (issued t))
      else natural)"

definition respond :: "tpm_cmd \<Rightarrow> tpm_rc \<Rightarrow> tpm_module \<Rightarrow> tpm_module" where
  "respond cmd rc t = t\<lparr>issued := issued t @ [cmd], lastResponseCode := rc\<rparr>"

text \<open>Transient handles are the handles from \<^verbatim>\<open>0x80000000\<close> to \<^verbatim>\<open>0x80FFFFFF\<close>.\<close>

definition freshHandle :: "tpm_module \<Rightarrow> tpm_handle" where
  "freshHandle t = of_nat (0x80000000 + length (issued t) mod 0x1000000)"

definition findObject :: "tpm_module \<Rightarrow> tpm_handle \<Rightarrow> tpm_object option" where
  "findObject t h = (case persistent t h of Some ob \<Rightarrow> Some ob | None \<Rightarrow> transient t h)"

text \<open>\<^verbatim>\<open>Tpm.connect\<close>: opening the transport raises when the module refuses.\<close>

definition connect :: "tpm_module \<Rightarrow> tpm_rc option \<times> tpm_module" where
  "connect t =
     (let rc = verdict t TPM_RC_SUCCESS
      in (if rc = TPM_RC_SUCCESS then None else Some rc, respond Cmd_Connect rc t))"

definition ReadPublic :: "tpm_handle \<Rightarrow> tpm_module \<Rightarrow> tpmt_public option \<times> tpm_module" where
  "ReadPublic h t =
     (let rc = verdict t (case findObject t h of None \<Rightarrow> TPM_RC_HANDLE
                          | Some ob \<Rightarrow> TPM_RC_SUCCESS)
      in (if rc = TPM_RC_SUCCESS then map_option objPublic (findObject t h) else None,
          respond (Cmd_ReadPublic h) rc t))"

text \<open>A primary object is derived from the hierarchy's seed and the template, so the
  same template gives the same public area; it is loaded at a fresh transient handle.\<close>

definition CreatePrimary ::
  "tpm_handle \<Rightarrow> tpmt_public \<Rightarrow> tpm_module \<Rightarrow> (tpm_handle \<times> tpmt_public option) \<times> tpm_module" where
  "CreatePrimary hierarchy template t =
     (let rc = verdict t TPM_RC_SUCCESS;
          pub = template\<lparr>unique := fw_primary t hierarchy template\<rparr>;
          t' = respond (Cmd_CreatePrimary hierarchy template) rc t
      in if rc = TPM_RC_SUCCESS
         then ((freshHandle t, Some pub),
               t'\<lparr>transient := (transient t)(freshHandle t \<mapsto>
                     \<lparr>objPublic = pub, objPrivate = fw_primary t hierarchy template\<rparr>)\<rparr>)
         else ((TPM_RH_NULL, None), t'))"

text \<open>\<^verbatim>\<open>EvictControl(auth, objectHandle, persistentHandle)\<close>: with the persistent handle
  itself as the object it removes the persistent object; with a transient object it
  stores that object at the persistent handle, which must be free.\<close>

definition EvictControl ::
  "tpm_handle \<Rightarrow> tpm_handle \<Rightarrow> tpm_handle \<Rightarrow> tpm_module \<Rightarrow> tpm_module" where
  "EvictControl auth objectHandle persistentHandle t =
     (let natural =
            (if objectHandle = persistentHandle
             then (case persistent t persistentHandle of None \<Rightarrow> TPM_RC_HANDLE
                   | Some ob \<Rightarrow> TPM_RC_SUCCESS)
             else (case transient t objectHandle of None \<Rightarrow> TPM_RC_HANDLE
                   | Some ob \<Rightarrow> (case persistent t persistentHandle of
                                  None \<Rightarrow> TPM_RC_SUCCESS
                                | Some old \<Rightarrow> TPM_RC_NV_DEFINED)));
          rc = verdict t natural;
          t' = respond (Cmd_EvictControl auth objectHandle persistentHandle) rc t
      in if rc \<noteq> TPM_RC_SUCCESS then t'
         else if objectHandle = persistentHandle
         then t'\<lparr>persistent := (persistent t)(persistentHandle := None)\<rparr>
         else t'\<lparr>persistent := (persistent t)(persistentHandle := transient t objectHandle)\<rparr>)"

definition FlushContext :: "tpm_handle \<Rightarrow> tpm_module \<Rightarrow> tpm_module" where
  "FlushContext h t =
     (let rc = verdict t (case transient t h of
                            Some ob \<Rightarrow> TPM_RC_SUCCESS
                          | None \<Rightarrow> (case sessions t h of Some n \<Rightarrow> TPM_RC_SUCCESS
                                     | None \<Rightarrow> TPM_RC_HANDLE));
          t' = respond (Cmd_FlushContext h) rc t
      in if rc = TPM_RC_SUCCESS
         then t'\<lparr>transient := (transient t)(h := None), sessions := (sessions t)(h := None)\<rparr>
         else t')"

text \<open>The capability query answers with the module's tagged properties.\<close>

definition GetCapability ::
  "32 word \<Rightarrow> 32 word \<Rightarrow> nat \<Rightarrow> tpm_module \<Rightarrow> (32 word \<times> 32 word) list \<times> tpm_module" where
  "GetCapability capability property propertyCount t =
     (let rc = verdict t TPM_RC_SUCCESS
      in (if rc = TPM_RC_SUCCESS then properties t else [],
          respond (Cmd_GetCapability capability property propertyCount) rc t))"

text \<open>Keyed hashing under a loaded key: in one command, or as a sequence that is
  started, fed and completed; the sequence hashes what it was fed, in order.\<close>

definition HMAC ::
  "tpm_handle \<Rightarrow> buffer \<Rightarrow> tpm_alg option \<Rightarrow> tpm_module \<Rightarrow> buffer \<times> tpm_module" where
  "HMAC h data hashAlg t =
     (let rc = verdict t (case findObject t h of None \<Rightarrow> TPM_RC_HANDLE
                          | Some ob \<Rightarrow> TPM_RC_SUCCESS)
      in (case findObject t h of
            None \<Rightarrow> []
          | Some ob \<Rightarrow> if rc = TPM_RC_SUCCESS then fw_hmac t (objPrivate ob) hashAlg data else [],
          respond (Cmd_HMAC h data hashAlg) rc t))"

definition HMAC_Start ::
  "tpm_handle \<Rightarrow> buffer \<Rightarrow> tpm_alg option \<Rightarrow> tpm_module \<Rightarrow> tpm_handle \<times> tpm_module" where
  "HMAC_Start h auth hashAlg t =
     (let rc = verdict t (case findObject t h of None \<Rightarrow> TPM_RC_HANDLE
                          | Some ob \<Rightarrow> TPM_RC_SUCCESS);
          t' = respond (Cmd_HMAC_Start h auth hashAlg) rc t
      in case findObject t h of
           None \<Rightarrow> (TPM_RH_NULL, t')
         | Some ob \<Rightarrow>
             if rc = TPM_RC_SUCCESS
             then (freshHandle t,
                   t'\<lparr>sequences := (sequences t)(freshHandle t \<mapsto> (objPrivate ob, hashAlg, []))\<rparr>)
             else (TPM_RH_NULL, t'))"

definition SequenceUpdate :: "tpm_handle \<Rightarrow> buffer \<Rightarrow> tpm_module \<Rightarrow> tpm_module" where
  "SequenceUpdate hSequence chunk t =
     (let rc = verdict t (case sequences t hSequence of None \<Rightarrow> TPM_RC_HANDLE
                          | Some sq \<Rightarrow> TPM_RC_SUCCESS);
          t' = respond (Cmd_SequenceUpdate hSequence chunk) rc t
      in case sequences t hSequence of
           None \<Rightarrow> t'
         | Some (key, hashAlg, fed) \<Rightarrow>
             if rc = TPM_RC_SUCCESS
             then t'\<lparr>sequences := (sequences t)(hSequence \<mapsto> (key, hashAlg, fed @ chunk))\<rparr>
             else t')"

definition SequenceComplete ::
  "tpm_handle \<Rightarrow> buffer \<Rightarrow> tpm_handle \<Rightarrow> tpm_module \<Rightarrow> buffer \<times> tpm_module" where
  "SequenceComplete hSequence chunk hierarchy t =
     (let rc = verdict t (case sequences t hSequence of None \<Rightarrow> TPM_RC_HANDLE
                          | Some sq \<Rightarrow> TPM_RC_SUCCESS);
          t' = respond (Cmd_SequenceComplete hSequence chunk hierarchy) rc t
      in case sequences t hSequence of
           None \<Rightarrow> ([], t')
         | Some (key, hashAlg, fed) \<Rightarrow>
             if rc = TPM_RC_SUCCESS
             then (fw_hmac t key hashAlg (fed @ chunk),
                   t'\<lparr>sequences := (sequences t)(hSequence := None)\<rparr>)
             else ([], t'))"

text \<open>The commands of the activation handshake.  Each needs the handles it names to be
  loaded; what it computes is the firmware's business.\<close>

definition GetRandom :: "nat \<Rightarrow> tpm_module \<Rightarrow> buffer \<times> tpm_module" where
  "GetRandom bytesRequested t =
     (let rc = verdict t TPM_RC_SUCCESS
      in (if rc = TPM_RC_SUCCESS then fw_random t bytesRequested else [],
          respond (Cmd_GetRandom bytesRequested) rc t))"

definition sessionHandle :: "tpm_module \<Rightarrow> tpm_handle" where
  "sessionHandle t = of_nat (0x03000000 + length (issued t) mod 0x1000000)"

definition StartAuthSession :: "buffer \<Rightarrow> tpm_module \<Rightarrow> tpm_handle \<times> tpm_module" where
  "StartAuthSession nonceCaller t =
     (let rc = verdict t TPM_RC_SUCCESS;
          t' = respond (Cmd_StartAuthSession nonceCaller) rc t
      in if rc = TPM_RC_SUCCESS
         then (sessionHandle t, t'\<lparr>sessions := (sessions t)(sessionHandle t \<mapsto> nonceCaller)\<rparr>)
         else (TPM_RH_NULL, t'))"

definition PolicySecret :: "tpm_handle \<Rightarrow> tpm_handle \<Rightarrow> tpm_module \<Rightarrow> tpm_module" where
  "PolicySecret authHandle policySession t =
     respond (Cmd_PolicySecret authHandle policySession)
       (verdict t (case sessions t policySession of None \<Rightarrow> TPM_RC_HANDLE
                   | Some n \<Rightarrow> TPM_RC_SUCCESS)) t"

definition ActivateCredential ::
  "tpm_handle \<Rightarrow> tpm_handle \<Rightarrow> buffer \<Rightarrow> buffer \<Rightarrow> tpm_module \<Rightarrow> buffer \<times> tpm_module" where
  "ActivateCredential activateHandle keyHandle credentialBlob secret t =
     (let rc = verdict t (case findObject t activateHandle of
                            None \<Rightarrow> TPM_RC_HANDLE
                          | Some a \<Rightarrow> (case findObject t keyHandle of None \<Rightarrow> TPM_RC_HANDLE
                                      | Some k \<Rightarrow> TPM_RC_SUCCESS))
      in (if rc = TPM_RC_SUCCESS then fw_activate t credentialBlob secret else [],
          respond (Cmd_ActivateCredential activateHandle keyHandle credentialBlob secret) rc t))"

definition Import ::
  "tpm_handle \<Rightarrow> buffer \<Rightarrow> tpmt_public \<Rightarrow> buffer \<Rightarrow> buffer \<Rightarrow> nat \<Rightarrow> tpm_module
     \<Rightarrow> buffer \<times> tpm_module" where
  "Import parentHandle encryptionKey objectPublic duplicate inSymSeed keyBits t =
     (let rc = verdict t (case findObject t parentHandle of None \<Rightarrow> TPM_RC_HANDLE
                          | Some p \<Rightarrow> TPM_RC_SUCCESS)
      in (if rc = TPM_RC_SUCCESS
          then fw_import t encryptionKey objectPublic duplicate inSymSeed else [],
          respond (Cmd_Import parentHandle encryptionKey objectPublic duplicate inSymSeed keyBits)
            rc t))"

definition Load ::
  "tpm_handle \<Rightarrow> buffer \<Rightarrow> tpmt_public \<Rightarrow> tpm_module \<Rightarrow> tpm_handle \<times> tpm_module" where
  "Load parentHandle inPrivate inPublic t =
     (let rc = verdict t (case findObject t parentHandle of None \<Rightarrow> TPM_RC_HANDLE
                          | Some p \<Rightarrow> TPM_RC_SUCCESS);
          t' = respond (Cmd_Load parentHandle inPrivate inPublic) rc t
      in if rc = TPM_RC_SUCCESS
         then (freshHandle t,
               t'\<lparr>transient := (transient t)(freshHandle t \<mapsto>
                     \<lparr>objPublic = inPublic, objPrivate = inPrivate\<rparr>)\<rparr>)
         else (TPM_RH_NULL, t'))"

subsection \<open>The persistent key provisioner\<close>

datatype device_failure =
    UnexpectedCapability
  | AuthSessionFailed tpm_rc
  | PolicySecretFailed tpm_rc
  | ActivateCredentialFailed tpm_rc
  | ImportFailed tpm_rc
  | LoadFailed tpm_rc
  | PersistFailed tpm_rc

datatype error =
    ReferenceError
  | InvalidOperationError
  | SecurityDeviceError device_failure
  | TypeError
  | TransportError tpm_rc
  | MarshalError nat

text \<open>\<^verbatim>\<open>_createPersistentPrimary\<close>: the result is the pair of arguments its callback
  receives, or the exception raised inside the callback of a command, after which no
  further command is issued and the callback is never invoked.  Every path that reaches
  its end is \<^verbatim>\<open>callback(null, resp.outPublic)\<close>.  The log lines read the public area of
  the answer: \<^verbatim>\<open>resp.outPublic.toString()\<close> after a successful read (line 222) and
  \<^verbatim>\<open>resp.outPublic.unique\<close> after \<^verbatim>\<open>CreatePrimary\<close> (line 225), whose response code is
  not tested; an answer without a public area makes either a property access on null.\<close>

definition createPersistentPrimary ::
  "string \<Rightarrow> tpm_handle \<Rightarrow> tpm_handle \<Rightarrow> tpmt_public \<Rightarrow> tpm_module
     \<Rightarrow> (error + (error option \<times> tpmt_public option)) \<times> tpm_module" where
  "createPersistentPrimary name hierarchy handle template t =
     (let (resp, t1) = ReadPublic handle t
      in if lastResponseCode t1 \<noteq> TPM_RC_SUCCESS
         then (let ((respHandle, outPublic), t2) = CreatePrimary hierarchy template t1
               in case outPublic of
                    None \<Rightarrow> (Inl TypeError, t2)
                  | Some pub \<Rightarrow>
                      (let t3 = EvictControl Owner respHandle handle t2;
                           t4 = FlushContext respHandle t3
                       in (Inr (None, outPublic), t4)))
         else (case resp of
                 None \<Rightarrow> (Inl TypeError, t1)
               | Some pub \<Rightarrow> (Inr (None, resp), t1)))"

subsection \<open>The libraries beside tss.js\<close>

text \<open>
  Modelled from the spec: the base-32 encoding of RFC 4648 that the package
  \<^verbatim>\<open>base32-encode\<close> computes (section 4.5 names the RFC; the package is not part of the
  repository).  The bits of the input, most significant first, are cut into groups of
  five, the last group filled with zero bits; each group indexes the alphabet; the
  output is filled with \<^verbatim>\<open>=\<close> to a multiple of eight characters.
\<close>

definition base32Alphabet :: string where
  "base32Alphabet = ''ABCDEFGHIJKLMNOPQRSTUVWXYZ234567''"

definition bitsOfByte :: "byte \<Rightarrow> bool list" where
  "bitsOfByte b = map (bit b) [7, 6, 5, 4, 3, 2, 1, 0]"

fun quintets :: "bool list \<Rightarrow> bool list list" where
  "quintets [] = []"
| "quintets (b # bs) = take 5 (b # bs @ replicate 4 False) # quintets (drop 4 bs)"

definition bitsToNat :: "bool list \<Rightarrow> nat" where
  "bitsToNat bs = foldl (\<lambda>n b. 2 * n + (if b then 1 else 0)) 0 bs"

definition base32Encode :: "buffer \<Rightarrow> string" where
  "base32Encode bytes =
     (let output = map (\<lambda>q. base32Alphabet ! bitsToNat q) (quintets (concat (map bitsOfByte bytes)))
      in output @ replicate ((8 - length output mod 8) mod 8) (CHR ''=''))"

text \<open>\<^verbatim>\<open>String.prototype.toLowerCase\<close> on the characters of the encoding, and
  \<^verbatim>\<open>replace(/=/g, '')\<close>, which removes every \<^verbatim>\<open>=\<close>.\<close>

definition toLowerCase :: "char \<Rightarrow> char" where
  "toLowerCase ch =
     (if 65 \<le> (of_char ch :: nat) \<and> (of_char ch :: nat) \<le> 90
      then char_of ((of_char ch :: nat) + 32) else ch)"

definition removeEquals :: "string \<Rightarrow> string" where
  "removeEquals str = filter (\<lambda>ch. ch \<noteq> CHR ''='') str"

text \<open>What the client takes from \<^verbatim>\<open>crypto\<close> and from the marshalling half of tss.js:
  the hash, the serialisation of a public area, and the four unmarshalling routines of
  the activation blob, each from a buffer and a position to the value read and the next
  position, or to the exception it raises.\<close>

record env =
  sha256 :: "buffer \<Rightarrow> buffer"
  asTpm2B :: "tpmt_public \<Rightarrow> buffer"
  sizedFromTpm_ID_OBJECT :: "buffer \<Rightarrow> nat \<Rightarrow> error + (buffer \<times> nat)"
  ENCRYPTED_SECRET_fromTpm :: "buffer \<Rightarrow> nat \<Rightarrow> error + (buffer \<times> nat)"
  PRIVATE_fromTpm :: "buffer \<Rightarrow> nat \<Rightarrow> error + (buffer \<times> nat)"
  sizedFromTpm_PUBLIC :: "buffer \<Rightarrow> nat \<Rightarrow> error + (tpmt_public \<times> nat)"

text \<open>The identifier in the spec's words (section 4.5): the lowercase base-32 encoding of
  the SHA-256 digest with the trailing \<^verbatim>\<open>=\<close> characters stripped.\<close>

definition stripTrailingEquals :: "string \<Rightarrow> string" where
  "stripTrailingEquals str = rev (dropWhile (\<lambda>ch. ch = CHR ''='') (rev str))"

definition specRegistrationId :: "env \<Rightarrow> buffer \<Rightarrow> string" where
  "specRegistrationId env endorsementKey =
     stripTrailingEquals (map toLowerCase (base32Encode (sha256 env endorsementKey)))"

subsection \<open>The client\<close>

datatype fsm_state = Disconnected | Connecting | Connected

text \<open>The callbacks that reach the state machine: the caller's own, and the one that
  \<^verbatim>\<open>getRegistrationId\<close> passes to \<^verbatim>\<open>getEndorsementKey\<close>.\<close>

datatype callback = UserCallback | RegistrationIdCallback

datatype fsm_input =
    In_getEndorsementKey callback
  | In_getStorageRootKey
  | In_signWithIdentity buffer
  | In_activateSymmetricIdentity buffer

datatype cbvalue = Buf buffer | Str string | Undefined

text \<open>What a call comes to: the caller's callback receives a value or an error, an
  exception leaves the call, the input is queued by \<^verbatim>\<open>deferUntilTransition\<close>, or the
  callback is never invoked.\<close>

datatype outcome =
    Returned cbvalue
  | Failed error
  | Thrown error
  | Deferred
  | NeverCalled

text \<open>The fields of \<^verbatim>\<open>TpmSecurityClient\<close>; of the state machine, its state, its queue
  of deferred inputs and, while it is connecting, the input whose connect callback the
  transition holds.\<close>

record client =
  ek :: "tpmt_public option"
  srk :: "tpmt_public option"
  registrationId :: string
  tpm :: tpm_module
  idKeyPub :: "tpmt_public option"
  fsmState :: fsm_state
  inputQueue :: "fsm_input list"
  pendingConnect :: "fsm_input option"

definition newClient :: "string option \<Rightarrow> tpm_module \<Rightarrow> client" where
  "newClient registrationIdArg customTpm =
     \<lparr> ek = None, srk = None,
       registrationId = (case registrationIdArg of None \<Rightarrow> [] | Some r \<Rightarrow> r),
       tpm = customTpm, idKeyPub = None, fsmState = Disconnected, inputQueue = [],
       pendingConnect = None \<rparr>"

subsubsection \<open>Signing\<close>

definition slice :: "buffer \<Rightarrow> nat \<Rightarrow> nat \<Rightarrow> buffer" where
  "slice b start end = take (end - start) (drop start b)"

text \<open>The hash algorithm of the scheme of a keyed-hash parameter block; the cast of
  the source does not check the block, and another block has no such field.\<close>

definition hashAlgOf :: "tpmt_public \<Rightarrow> tpm_alg option" where
  "hashAlgOf pub =
     (case parameters pub of TPMS_KEYEDHASH_PARMS a \<Rightarrow> Some a
      | TPMS_RSA_PARMS sa sb sm kb ex \<Rightarrow> None)"

text \<open>\<^verbatim>\<open>loopFn\<close>: one round per answer of the module; the two counters are advanced
  right after the update is sent, before its answer starts the next round.  With an
  input buffer of size 0 it never reaches the completion, so its value is an option.
  The completion's callback only logs: the result is the module's answer and state, for
  whoever would read it.\<close>

partial_function (option) loopFn ::
  "tpm_handle \<Rightarrow> buffer \<Rightarrow> nat \<Rightarrow> nat \<Rightarrow> nat \<Rightarrow> tpm_module \<Rightarrow> (buffer \<times> tpm_module) option" where
  "loopFn hSequence dataToSign maxInputBuffer curPos bytesLeft t =
     (if bytesLeft > maxInputBuffer
      then loopFn hSequence dataToSign maxInputBuffer (curPos + maxInputBuffer)
             (bytesLeft - maxInputBuffer)
             (SequenceUpdate hSequence (slice dataToSign curPos (curPos + maxInputBuffer)) t)
      else Some (SequenceComplete hSequence (slice dataToSign curPos (curPos + bytesLeft))
                   TPM_RH_NULL t))"

text \<open>\<^verbatim>\<open>_signData\<close>.  Its first line reads the descriptor of the identity key, which
  raises when there is none.\<close>

definition signData :: "buffer \<Rightarrow> client \<Rightarrow> (outcome \<times> client) option" where
  "signData dataToSign c =
     (case idKeyPub c of
        None \<Rightarrow> Some (Thrown TypeError, c)
      | Some pub \<Rightarrow>
     (let idKeyHashAlg = hashAlgOf pub;
          (props, t1) = GetCapability TPM_CAP_TPM_PROPERTIES TPM_PT_INPUT_BUFFER 1 (tpm c)
      in if length props \<noteq> 1 \<or> fst (hd props) \<noteq> TPM_PT_INPUT_BUFFER
         then Some (Failed (SecurityDeviceError UnexpectedCapability), c\<lparr>tpm := t1\<rparr>)
         else (let maxInputBuffer = unat (snd (hd props))
               in if length dataToSign \<le> maxInputBuffer
                  then (let (signature, t2) =
                              HMAC idKeyPersistentHandle dataToSign idKeyHashAlg t1
                        in Some (Returned (Buf signature), c\<lparr>tpm := t2\<rparr>))
                  else (let (hSeq, t2) = HMAC_Start idKeyPersistentHandle [] idKeyHashAlg t1
                        in case loopFn hSeq dataToSign maxInputBuffer 0 (length dataToSign) t2 of
                             None \<Rightarrow> None
                           | Some (resp, t3) \<Rightarrow> Some (NeverCalled, c\<lparr>tpm := t3\<rparr>)))))"

subsubsection \<open>Activation\<close>

definition unmarshalActivationBlob ::
  "env \<Rightarrow> buffer \<Rightarrow> error + (buffer \<times> buffer \<times> buffer \<times> buffer \<times> tpmt_public)" where
  "unmarshalActivationBlob env activationBlob =
     (case sizedFromTpm_ID_OBJECT env activationBlob 0 of
        Inl e \<Rightarrow> Inl e
      | Inr (credentialBlob, p1) \<Rightarrow>
     (case ENCRYPTED_SECRET_fromTpm env activationBlob p1 of
        Inl e \<Rightarrow> Inl e
      | Inr (encodedSecret, p2) \<Rightarrow>
     (case PRIVATE_fromTpm env activationBlob p2 of
        Inl e \<Rightarrow> Inl e
      | Inr (idKeyDupBlob, p3) \<Rightarrow>
     (case ENCRYPTED_SECRET_fromTpm env activationBlob p3 of
        Inl e \<Rightarrow> Inl e
      | Inr (encWrapKey, p4) \<Rightarrow>
     (case sizedFromTpm_PUBLIC env activationBlob p4 of
        Inl e \<Rightarrow> Inl e
      | Inr (newIdKeyPub, p5) \<Rightarrow>
          Inr (credentialBlob, encodedSecret, idKeyDupBlob, encWrapKey, newIdKeyPub))))))"

text \<open>Lines 366 to 391: the evict of the previous key, whose response code is not
  read, the persist of the new one, and the two releases.\<close>

definition persistIdKey :: "tpm_handle \<Rightarrow> tpm_handle \<Rightarrow> tpm_module \<Rightarrow> error option \<times> tpm_module" where
  "persistIdKey hIdKey policySession t =
     (let t1 = EvictControl Owner idKeyPersistentHandle idKeyPersistentHandle t;
          t2 = EvictControl Owner hIdKey idKeyPersistentHandle t1
      in if lastResponseCode t2 \<noteq> TPM_RC_SUCCESS
         then (Some (SecurityDeviceError (PersistFailed (lastResponseCode t2))), t2)
         else (let t3 = FlushContext hIdKey t2;
                   t4 = FlushContext policySession t3
               in (None, t4)))"

text \<open>Lines 307 to 361: the handshake up to the load of the imported key.\<close>

definition activationHandshake ::
  "buffer \<Rightarrow> buffer \<Rightarrow> buffer \<Rightarrow> buffer \<Rightarrow> tpmt_public \<Rightarrow> tpm_module
     \<Rightarrow> error option \<times> tpm_module" where
  "activationHandshake credentialBlob encodedSecret idKeyDupBlob encWrapKey newIdKeyPub t =
     (let (nonce, t1) = GetRandom 20 t;
          (policySession, t2) = StartAuthSession nonce t1
      in if lastResponseCode t2 \<noteq> TPM_RC_SUCCESS
         then (Some (SecurityDeviceError (AuthSessionFailed (lastResponseCode t2))), t2)
         else (let t3 = PolicySecret Endorsement policySession t2
      in if lastResponseCode t3 \<noteq> TPM_RC_SUCCESS
         then (Some (SecurityDeviceError (PolicySecretFailed (lastResponseCode t3))), t3)
         else (let (innerWrapKey, t4) =
                     ActivateCredential srkPersistentHandle ekPersistentHandle credentialBlob
                       encodedSecret t3
      in if lastResponseCode t4 \<noteq> TPM_RC_SUCCESS
         then (Some (SecurityDeviceError (ActivateCredentialFailed (lastResponseCode t4))), t4)
         else (let (idKeyPriv, t5) =
                     Import srkPersistentHandle innerWrapKey newIdKeyPub idKeyDupBlob encWrapKey
                       (length innerWrapKey * 8) t4
      in if lastResponseCode t5 \<noteq> TPM_RC_SUCCESS
         then (Some (SecurityDeviceError (ImportFailed (lastResponseCode t5))), t5)
         else (let (hIdKey, t6) = Load srkPersistentHandle idKeyPriv newIdKeyPub t5
      in if lastResponseCode t6 \<noteq> TPM_RC_SUCCESS
         then (Some (SecurityDeviceError (LoadFailed (lastResponseCode t6))), t6)
         else persistIdKey hIdKey policySession t6)))))"

text \<open>\<^verbatim>\<open>_activateSymmetricIdentity\<close>: the unmarshalling comes first and raises; its last
  assignment (line 300) stores the fifth field in \<^verbatim>\<open>_idKeyPub\<close>; then the handshake.\<close>

definition activateSymmetricIdentityInner :: "env \<Rightarrow> buffer \<Rightarrow> client \<Rightarrow> outcome \<times> client" where
  "activateSymmetricIdentityInner env activationBlob c =
     (case unmarshalActivationBlob env activationBlob of
        Inl e \<Rightarrow> (Thrown e, c)
      | Inr (credentialBlob, encodedSecret, idKeyDupBlob, encWrapKey, newIdKeyPub) \<Rightarrow>
          (let c1 = c\<lparr>idKeyPub := Some newIdKeyPub\<rparr>;
               (err, t') = activationHandshake credentialBlob encodedSecret idKeyDupBlob
                             encWrapKey newIdKeyPub (tpm c1)
           in case err of
                Some e \<Rightarrow> (Failed e, c1\<lparr>tpm := t'\<rparr>)
              | None \<Rightarrow> (Returned Undefined, c1\<lparr>tpm := t'\<rparr>)))"

subsubsection \<open>The state machine\<close>

text \<open>\<^verbatim>\<open>transition('disconnected', callback, err)\<close> from another state: the entry
  action clears the two cached descriptors and hands the error to the callback.\<close>

definition enterDisconnected :: "error \<Rightarrow> client \<Rightarrow> outcome \<times> client" where
  "enterDisconnected err c = (Failed err, c\<lparr>fsmState := Disconnected, ek := None, srk := None\<rparr>)"

text \<open>The entry action of \<^verbatim>\<open>connecting\<close> with the callbacks it starts, up to the
  transition that ends it.  The result is the error the connect callback receives, if
  any.  The \<^verbatim>\<open>try\<close> of the entry action surrounds the call of \<^verbatim>\<open>connect\<close> only: when
  the provisioner raises inside the callback of a command, no transition follows, the
  connect callback is not invoked and the machine stays in \<^verbatim>\<open>connecting\<close>; the result
  is then the exception.  The endorsement key's descriptor is stored as soon as its
  provisioning has called back (line 117).\<close>

definition provision :: "client \<Rightarrow> (error + error option) \<times> client" where
  "provision c =
     (let (refused, t1) = connect (tpm c)
      in case refused of
           Some rc \<Rightarrow>
             (Inr (Some (TransportError rc)),
              c\<lparr>tpm := t1, fsmState := Disconnected, ek := None, srk := None\<rparr>)
         | None \<Rightarrow>
             (let (ekResult, t2) =
                    createPersistentPrimary ''EK'' Endorsement ekPersistentHandle ekTemplate t1
              in case ekResult of
                   Inl raised \<Rightarrow> (Inl raised, c\<lparr>tpm := t2, fsmState := Connecting\<rparr>)
                 | Inr (Some e, ekPublicKey) \<Rightarrow>
                     (Inr (Some e),
                      c\<lparr>tpm := t2, fsmState := Disconnected, ek := None, srk := None\<rparr>)
                 | Inr (None, ekPublicKey) \<Rightarrow>
                     (let (srkResult, t3) =
                            createPersistentPrimary ''SRK'' Owner srkPersistentHandle srkTemplate t2
                      in case srkResult of
                           Inl raised \<Rightarrow>
                             (Inl raised,
                              c\<lparr>tpm := t3, ek := ekPublicKey, fsmState := Connecting\<rparr>)
                         | Inr (Some e, srkPublicKey) \<Rightarrow>
                             (Inr (Some e),
                              c\<lparr>tpm := t3, fsmState := Disconnected, ek := None, srk := None\<rparr>)
                         | Inr (None, srkPublicKey) \<Rightarrow>
                             (Inr None,
                              c\<lparr>tpm := t3, ek := ekPublicKey, srk := srkPublicKey,
                                fsmState := Connected\<rparr>))))"

text \<open>The callback of \<^verbatim>\<open>getEndorsementKey\<close> on success: the caller's receives the
  buffer; the one of \<^verbatim>\<open>getRegistrationId\<close> (lines 210 to 213) derives the identifier,
  stores it and passes it on.\<close>

definition deriveRegistrationId :: "env \<Rightarrow> buffer \<Rightarrow> string" where
  "deriveRegistrationId env endorsementKey =
     removeEquals (map toLowerCase (base32Encode (sha256 env endorsementKey)))"

definition deliverEndorsementKey :: "env \<Rightarrow> callback \<Rightarrow> buffer \<Rightarrow> client \<Rightarrow> outcome \<times> client" where
  "deliverEndorsementKey env cb endorsementKey c =
     (case cb of
        UserCallback \<Rightarrow> (Returned (Buf endorsementKey), c)
      | RegistrationIdCallback \<Rightarrow>
          (Returned (Str (deriveRegistrationId env endorsementKey)),
           c\<lparr>registrationId := deriveRegistrationId env endorsementKey\<rparr>))"

text \<open>The handlers of the state \<^verbatim>\<open>connected\<close>.  A descriptor that is null makes
  \<^verbatim>\<open>asTpm2B\<close> a call on null.\<close>

fun connectedHandle :: "env \<Rightarrow> fsm_input \<Rightarrow> client \<Rightarrow> (outcome \<times> client) option" where
  "connectedHandle env (In_getEndorsementKey cb) c =
     (case ek c of None \<Rightarrow> Some (Thrown TypeError, c)
      | Some p \<Rightarrow> Some (deliverEndorsementKey env cb (asTpm2B env p) c))"
| "connectedHandle env In_getStorageRootKey c =
     (case srk c of None \<Rightarrow> Some (Thrown TypeError, c)
      | Some p \<Rightarrow> Some (Returned (Buf (asTpm2B env p)), c))"
| "connectedHandle env (In_signWithIdentity dataToSign) c =
     (case signData dataToSign c of
        None \<Rightarrow> None
      | Some (Failed err, c') \<Rightarrow> Some (enterDisconnected err c')
      | Some (out, c') \<Rightarrow> Some (out, c'))"
| "connectedHandle env (In_activateSymmetricIdentity identityKey) c =
     (case activateSymmetricIdentityInner env identityKey c of
        (Failed err, c') \<Rightarrow> Some (enterDisconnected err c')
      | (out, c') \<Rightarrow> Some (out, c'))"

text \<open>The handlers of \<^verbatim>\<open>disconnected\<close> all connect first; the connect callback passes
  the error on or hands the input to the state machine again, now connected.  When the
  provisioning raises, the connect callback does not run and the exception is what the
  call comes to.\<close>

definition afterConnect ::
  "env \<Rightarrow> fsm_input \<Rightarrow> (error + error option) \<times> client \<Rightarrow> (outcome \<times> client) option" where
  "afterConnect env i r =
     (case r of (Inl raised, c) \<Rightarrow> Some (Thrown raised, c)
      | (Inr (Some err), c) \<Rightarrow> Some (Failed err, c)
      | (Inr None, c) \<Rightarrow> connectedHandle env i c)"

text \<open>\<^verbatim>\<open>_fsm.handle\<close>.  In \<^verbatim>\<open>connecting\<close> the catch-all handler defers every input.
  From \<^verbatim>\<open>disconnected\<close> the call is followed to the end of the connection it starts, no
  other call coming in between.\<close>

definition handle :: "env \<Rightarrow> fsm_input \<Rightarrow> client \<Rightarrow> (outcome \<times> client) option" where
  "handle env i c =
     (case fsmState c of
        Disconnected \<Rightarrow> afterConnect env i (provision c)
      | Connecting \<Rightarrow> Some (Deferred, c\<lparr>inputQueue := inputQueue c @ [i]\<rparr>)
      | Connected \<Rightarrow> connectedHandle env i c)"

subsubsection \<open>The public operations\<close>

definition getEndorsementKey :: "env \<Rightarrow> client \<Rightarrow> (outcome \<times> client) option" where
  "getEndorsementKey env c = handle env (In_getEndorsementKey UserCallback) c"

definition getStorageRootKey :: "env \<Rightarrow> client \<Rightarrow> (outcome \<times> client) option" where
  "getStorageRootKey env c = handle env In_getStorageRootKey c"

definition signWithIdentity :: "env \<Rightarrow> buffer option \<Rightarrow> client \<Rightarrow> (outcome \<times> client) option" where
  "signWithIdentity env dataToSign c =
     (case dataToSign of
        None \<Rightarrow> Some (Thrown ReferenceError, c)
      | Some d \<Rightarrow>
          if length d = 0 then Some (Thrown ReferenceError, c)
          else if idKeyPub c = None then Some (Thrown InvalidOperationError, c)
          else handle env (In_signWithIdentity d) c)"

definition activateSymmetricIdentity ::
  "env \<Rightarrow> buffer option \<Rightarrow> client \<Rightarrow> (outcome \<times> client) option" where
  "activateSymmetricIdentity env identityKey c =
     (case identityKey of
        None \<Rightarrow> Some (Thrown ReferenceError, c)
      | Some k \<Rightarrow>
          if length k = 0 then Some (Thrown ReferenceError, c)
          else handle env (In_activateSymmetricIdentity k) c)"

definition getRegistrationId :: "env \<Rightarrow> client \<Rightarrow> (outcome \<times> client) option" where
  "getRegistrationId env c =
     (if registrationId c \<noteq> [] then Some (Returned (Str (registrationId c)), c)
      else handle env (In_getEndorsementKey RegistrationIdCallback) c)"

subsubsection \<open>Deferred inputs\<close>







subsection \<open>A module and libraries for the closed instances\<close>

definition toyModule :: tpm_module where
  "toyModule =
     \<lparr> persistent = (\<lambda>h. None), transient = (\<lambda>h. None), sequences = (\<lambda>h. None),
       sessions = (\<lambda>h. None),
       properties = [(TPM_PT_INPUT_BUFFER, 2)],
       forced = (\<lambda>n. TPM_RC_SUCCESS),
       fw_primary = (\<lambda>h p. [1, 2, 3]),
       fw_hmac = (\<lambda>k a d. k @ d),
       fw_random = (\<lambda>n. replicate n 7),
       fw_activate = (\<lambda>cr s. cr @ s),
       fw_import = (\<lambda>k p d s. d),
       lastResponseCode = 0,
       issued = [] \<rparr>"

text \<open>The same module failing its n-th command with the code \<open>rc\<close>.\<close>

definition failingAt :: "nat \<Rightarrow> tpm_rc \<Rightarrow> tpm_module" where
  "failingAt n rc = toyModule\<lparr>forced := (\<lambda>k. if k = n then rc else TPM_RC_SUCCESS)\<rparr>"

text \<open>A size-prefixed field: two bytes of length, most significant first, then the
  bytes; reading past the end of the buffer raises.\<close>

definition readSized :: "buffer \<Rightarrow> nat \<Rightarrow> error + (buffer \<times> nat)" where
  "readSized b pos =
     (if length b < pos + 2 then Inl (MarshalError pos)
      else (let n = unat (b ! pos) * 256 + unat (b ! (pos + 1))
            in if length b < pos + 2 + n then Inl (MarshalError pos)
               else Inr (slice b (pos + 2) (pos + 2 + n), pos + 2 + n)))"

text \<open>Libraries for the instances.  The digest is a stand-in of the right length (the
  input filled with zeros and cut to 32 bytes), since no property here looks into it;
  the descriptor read from the fifth field is a keyed-hash one.\<close>

definition toyEnv :: env where
  "toyEnv =
     \<lparr> sha256 = (\<lambda>b. take 32 (b @ replicate 32 0)),
       asTpm2B = (\<lambda>p. unique p),
       sizedFromTpm_ID_OBJECT = readSized,
       ENCRYPTED_SECRET_fromTpm = readSized,
       PRIVATE_fromTpm = readSized,
       sizedFromTpm_PUBLIC =
         (\<lambda>b pos. case readSized b pos of
                     Inl e \<Rightarrow> Inl e
                   | Inr (body, p) \<Rightarrow>
                       Inr (\<lparr>nameAlg = TPM_ALG_SHA256, objectAttributes = 0x40, authPolicy = [],
                             parameters = TPMS_KEYEDHASH_PARMS TPM_ALG_SHA256,
                             unique = body\<rparr>, p)) \<rparr>"

text \<open>An activation blob of five fields, and the same blob cut before the fifth.\<close>

definition goodBlob :: buffer where
  "goodBlob = [0, 1, 0xC1, 0, 1, 0xE5, 0, 2, 0xD0, 0xD1, 0, 1, 0xE7, 0, 1, 0x1D]"

definition truncatedBlob :: buffer where
  "truncatedBlob = [0, 1, 0xC1, 0, 1, 0xE5, 0, 2, 0xD0, 0xD1, 0, 1, 0xE7]"

text \<open>A client that has connected to the module \<open>m\<close>, and a module that answers the
  capability query with no property.\<close>

definition connectedClient :: "tpm_module \<Rightarrow> client" where
  "connectedClient m = snd (provision (newClient None m))"

definition silentModule :: tpm_module where
  "silentModule = toyModule\<lparr>properties := []\<rparr>"

text \<open>A client whose activation of \<open>goodBlob\<close> on the module \<open>m\<close> has run.\<close>

definition activatedClient :: "tpm_module \<Rightarrow> client" where
  "activatedClient m =
     (case activateSymmetricIdentity toyEnv (Some goodBlob) (newClient None m) of
        None \<Rightarrow> newClient None m
      | Some (out, c) \<Rightarrow> c)"

section \<open>Properties\<close>

subsection \<open>Facts about the module\<close>

lemmas tpm_defs = connect_def ReadPublic_def CreatePrimary_def EvictControl_def FlushContext_def
  GetCapability_def HMAC_def HMAC_Start_def SequenceUpdate_def SequenceComplete_def GetRandom_def
  StartAuthSession_def PolicySecret_def ActivateCredential_def Import_def Load_def
  verdict_def respond_def findObject_def freshHandle_def sessionHandle_def

lemmas const_defs = TPM_RC_SUCCESS_def TPM_RC_HANDLE_def TPM_RC_NV_DEFINED_def TPM_RC_FAILURE_def
  Owner_def TPM_RH_NULL_def Endorsement_def ekPersistentHandle_def srkPersistentHandle_def
  idKeyPersistentHandle_def TPM_CAP_TPM_PROPERTIES_def TPM_PT_INPUT_BUFFER_def

lemma rc_distinct:
  "TPM_RC_HANDLE \<noteq> TPM_RC_SUCCESS" "TPM_RC_NV_DEFINED \<noteq> TPM_RC_SUCCESS"
  "TPM_RC_FAILURE \<noteq> TPM_RC_SUCCESS" "TPM_RC_FAILURE \<noteq> TPM_RC_HANDLE"
  by (simp_all add: const_defs)

lemma freshHandle_transient: "freshHandle t < 0x81000000"
proof -
  have "unat (of_nat (0x80000000 + length (issued t) mod 0x1000000) :: 32 word)
          = 0x80000000 + length (issued t) mod 0x1000000"
    by (simp only: unat_of_nat) simp
  moreover have "length (issued t) mod 0x1000000 < 0x1000000" by simp
  ultimately show ?thesis
    unfolding freshHandle_def word_less_nat_alt by simp
qed

lemma freshHandle_neq: "0x81000000 \<le> h \<Longrightarrow> freshHandle t \<noteq> h"
  using freshHandle_transient [of t] by auto

lemma respond_fields [simp]:
  "persistent (respond cmd rc t) = persistent t"
  "transient (respond cmd rc t) = transient t"
  "sequences (respond cmd rc t) = sequences t"
  "sessions (respond cmd rc t) = sessions t"
  "properties (respond cmd rc t) = properties t"
  "forced (respond cmd rc t) = forced t"
  "fw_primary (respond cmd rc t) = fw_primary t"
  "fw_hmac (respond cmd rc t) = fw_hmac t"
  "fw_random (respond cmd rc t) = fw_random t"
  "fw_activate (respond cmd rc t) = fw_activate t"
  "fw_import (respond cmd rc t) = fw_import t"
  "lastResponseCode (respond cmd rc t) = rc"
  "issued (respond cmd rc t) = issued t @ [cmd]"
  by (simp_all add: respond_def)

lemma findObject_respond [simp]: "findObject (respond cmd rc t) h = findObject t h"
  by (simp add: findObject_def split: option.splits)

lemma issued_ReadPublic: "issued (snd (ReadPublic h t)) = issued t @ [Cmd_ReadPublic h]"
  by (simp add: ReadPublic_def Let_def)

lemma issued_CreatePrimary:
  "issued (snd (CreatePrimary hi te t)) = issued t @ [Cmd_CreatePrimary hi te]"
  by (simp add: CreatePrimary_def Let_def)

lemma issued_EvictControl:
  "issued (EvictControl a ob h t) = issued t @ [Cmd_EvictControl a ob h]"
  by (simp add: EvictControl_def Let_def)

lemma issued_FlushContext: "issued (FlushContext h t) = issued t @ [Cmd_FlushContext h]"
  by (simp add: FlushContext_def Let_def)

subsection \<open>The provisioner\<close>

lemma createPersistentPrimary_found:
  assumes "findObject t hnd = Some ob" and "forced t (length (issued t)) = TPM_RC_SUCCESS"
  shows "createPersistentPrimary name hierarchy hnd template t =
           (Inr (None, Some (objPublic ob)), respond (Cmd_ReadPublic hnd) TPM_RC_SUCCESS t)"
  using assms by (simp add: createPersistentPrimary_def ReadPublic_def verdict_def Let_def)

lemma createPersistentPrimary_absent:
  assumes "findObject t hnd = None"
      and f0: "forced t (length (issued t)) = TPM_RC_SUCCESS"
      and f1: "forced t (Suc (length (issued t))) = TPM_RC_SUCCESS"
      and f2: "forced t (Suc (Suc (length (issued t)))) = TPM_RC_SUCCESS"
      and f3: "forced t (Suc (Suc (Suc (length (issued t))))) = TPM_RC_SUCCESS"
      and pers: "0x81000000 \<le> hnd"
  shows "fst (createPersistentPrimary name hierarchy hnd template t) =
           Inr (None, Some (template\<lparr>unique := fw_primary t hierarchy template\<rparr>))"
    and "findObject (snd (createPersistentPrimary name hierarchy hnd template t)) hnd =
           Some \<lparr>objPublic = template\<lparr>unique := fw_primary t hierarchy template\<rparr>,
                 objPrivate = fw_primary t hierarchy template\<rparr>"
    and "forced (snd (createPersistentPrimary name hierarchy hnd template t)) = forced t"
    and "\<exists>created. issued (snd (createPersistentPrimary name hierarchy hnd template t)) =
           issued t @ [Cmd_ReadPublic hnd, Cmd_CreatePrimary hierarchy template,
                       Cmd_EvictControl Owner created hnd, Cmd_FlushContext created]"
proof -
  have p: "persistent t hnd = None" and tr: "transient t hnd = None"
    using assms(1) by (simp_all add: findObject_def split: option.splits)
  have ne: "freshHandle t' \<noteq> hnd" for t' using pers by (rule freshHandle_neq)
  note facts = f0 f1 f2 f3 p tr ne rc_distinct assms(1)
  show "fst (createPersistentPrimary name hierarchy hnd template t) =
           Inr (None, Some (template\<lparr>unique := fw_primary t hierarchy template\<rparr>))"
    using facts
    by (simp add: createPersistentPrimary_def ReadPublic_def CreatePrimary_def verdict_def Let_def)
  show "findObject (snd (createPersistentPrimary name hierarchy hnd template t)) hnd =
           Some \<lparr>objPublic = template\<lparr>unique := fw_primary t hierarchy template\<rparr>,
                 objPrivate = fw_primary t hierarchy template\<rparr>"
    using facts
    by (simp add: createPersistentPrimary_def ReadPublic_def CreatePrimary_def
        EvictControl_def FlushContext_def verdict_def Let_def findObject_def [of _ hnd])
  show "forced (snd (createPersistentPrimary name hierarchy hnd template t)) = forced t"
    using facts
    by (simp add: createPersistentPrimary_def ReadPublic_def CreatePrimary_def
        EvictControl_def FlushContext_def verdict_def Let_def)
  show "\<exists>created. issued (snd (createPersistentPrimary name hierarchy hnd template t)) =
           issued t @ [Cmd_ReadPublic hnd, Cmd_CreatePrimary hierarchy template,
                       Cmd_EvictControl Owner created hnd, Cmd_FlushContext created]"
    using facts
    by (simp add: createPersistentPrimary_def ReadPublic_def CreatePrimary_def
        EvictControl_def FlushContext_def verdict_def Let_def)
qed

text \<open>The provisioner hands its callback no error, and the only exception it raises is
  the one of a property access on a missing public area.\<close>

lemma createPersistentPrimary_no_error:
  "fst (createPersistentPrimary name hierarchy hnd template t) \<noteq> Inr (Some err, pub)"
  by (simp add: createPersistentPrimary_def Let_def case_prod_beta split: option.splits)

lemma createPersistentPrimary_raises:
  "fst (createPersistentPrimary name hierarchy hnd template t) = Inl e \<Longrightarrow> e = TypeError"
  by (simp add: createPersistentPrimary_def Let_def case_prod_beta split: option.splits if_splits)

text \<open>
  C4, as the code has it.  The claim says that only the not-found code on the initial
  read leads to the creation and that any other failure of the read reaches the caller
  as a failure.  The source tests \<^verbatim>\<open>rc !== TPM_RC.SUCCESS\<close> and nothing else: whatever
  the code of a failed read, the provisioner issues the creation of the primary object
  next, and it never hands its callback an error.  When the module answers the creation
  with the created object, the provisioner moves it to the persistent handle, releases
  the transient handle, in this order, and calls back with the created descriptor and
  no error.
\<close>

theorem createPersistentPrimary_creates_on_any_failure:
  assumes "lastResponseCode (snd (ReadPublic hnd t)) = rc" and "rc \<noteq> TPM_RC_SUCCESS"
  shows "(\<exists>rest. issued (snd (createPersistentPrimary name hierarchy hnd template t)) =
            issued t @ Cmd_ReadPublic hnd # Cmd_CreatePrimary hierarchy template # rest)
       \<and> (\<forall>err pub. fst (createPersistentPrimary name hierarchy hnd template t)
                       \<noteq> Inr (Some err, pub))
       \<and> (\<forall>created pub.
             fst (CreatePrimary hierarchy template (snd (ReadPublic hnd t))) = (created, Some pub)
             \<longrightarrow> fst (createPersistentPrimary name hierarchy hnd template t) = Inr (None, Some pub)
                \<and> issued (snd (createPersistentPrimary name hierarchy hnd template t)) =
                    issued t @ [Cmd_ReadPublic hnd, Cmd_CreatePrimary hierarchy template,
                                Cmd_EvictControl Owner created hnd, Cmd_FlushContext created])"
proof (intro conjI allI impI)
  show "\<exists>rest. issued (snd (createPersistentPrimary name hierarchy hnd template t)) =
            issued t @ Cmd_ReadPublic hnd # Cmd_CreatePrimary hierarchy template # rest"
    using assms
    by (simp add: createPersistentPrimary_def Let_def case_prod_beta issued_ReadPublic
        issued_CreatePrimary issued_EvictControl issued_FlushContext split: option.splits)
next
  fix err pub
  show "fst (createPersistentPrimary name hierarchy hnd template t) \<noteq> Inr (Some err, pub)"
    by (rule createPersistentPrimary_no_error)
next
  fix created pub
  assume c: "fst (CreatePrimary hierarchy template (snd (ReadPublic hnd t))) = (created, Some pub)"
  have c1: "fst (fst (CreatePrimary hierarchy template (snd (ReadPublic hnd t)))) = created"
    and c2: "snd (fst (CreatePrimary hierarchy template (snd (ReadPublic hnd t)))) = Some pub"
    using c by simp_all
  show "fst (createPersistentPrimary name hierarchy hnd template t) = Inr (None, Some pub)"
    using assms c1 c2 by (simp add: createPersistentPrimary_def Let_def case_prod_beta)
  show "issued (snd (createPersistentPrimary name hierarchy hnd template t)) =
          issued t @ [Cmd_ReadPublic hnd, Cmd_CreatePrimary hierarchy template,
                      Cmd_EvictControl Owner created hnd, Cmd_FlushContext created]"
    using assms c1 c2
    by (simp add: createPersistentPrimary_def Let_def case_prod_beta issued_ReadPublic
        issued_CreatePrimary issued_EvictControl issued_FlushContext)
qed

theorem createPersistentPrimary_creates_on_any_failure_witness:
  "lastResponseCode (snd (ReadPublic ekPersistentHandle (failingAt 0 TPM_RC_FAILURE)))
     = TPM_RC_FAILURE
   \<and> fst (CreatePrimary Endorsement ekTemplate
            (snd (ReadPublic ekPersistentHandle (failingAt 0 TPM_RC_FAILURE))))
       = (0x80000001, Some (ekTemplate\<lparr>unique := [1, 2, 3]\<rparr>))
   \<and> fst (createPersistentPrimary ''EK'' Endorsement ekPersistentHandle ekTemplate
            (failingAt 0 TPM_RC_FAILURE))
       = Inr (None, Some (ekTemplate\<lparr>unique := [1, 2, 3]\<rparr>))
   \<and> issued (snd (createPersistentPrimary ''EK'' Endorsement ekPersistentHandle ekTemplate
                    (failingAt 0 TPM_RC_FAILURE)))
       = [Cmd_ReadPublic ekPersistentHandle, Cmd_CreatePrimary Endorsement ekTemplate,
          Cmd_EvictControl Owner 0x80000001 ekPersistentHandle, Cmd_FlushContext 0x80000001]"
proof -
  have a: "lastResponseCode (snd (ReadPublic ekPersistentHandle (failingAt 0 TPM_RC_FAILURE)))
             = TPM_RC_FAILURE"
    by (simp add: failingAt_def toyModule_def ReadPublic_def verdict_def findObject_def
        const_defs Let_def)
  have b: "TPM_RC_FAILURE \<noteq> TPM_RC_SUCCESS" by (simp add: const_defs)
  have c: "fst (CreatePrimary Endorsement ekTemplate
                  (snd (ReadPublic ekPersistentHandle (failingAt 0 TPM_RC_FAILURE))))
             = (0x80000001, Some (ekTemplate\<lparr>unique := [1, 2, 3]\<rparr>))"
    by (simp add: failingAt_def toyModule_def ReadPublic_def CreatePrimary_def verdict_def
        respond_def findObject_def freshHandle_def const_defs Let_def)
  have i: "issued (failingAt 0 TPM_RC_FAILURE) = []"
    by (simp add: failingAt_def toyModule_def)
  show ?thesis
    using createPersistentPrimary_creates_on_any_failure
            [OF a b, of "''EK''" Endorsement ekTemplate] a c i
    by simp
qed

text \<open>
  C4, as the claim states it, fails: the module answers the read of the endorsement
  key's handle with \<^verbatim>\<open>TPM_RC_FAILURE\<close>, which is not the not-found code; the provisioner
  calls back with no error and the descriptor it has just created, after the four
  commands of a creation.
\<close>

theorem unexpected_read_code_is_not_propagated:
  "lastResponseCode (snd (ReadPublic ekPersistentHandle (failingAt 0 TPM_RC_FAILURE)))
     = TPM_RC_FAILURE
   \<and> TPM_RC_FAILURE \<noteq> TPM_RC_HANDLE
   \<and> fst (createPersistentPrimary ''EK'' Endorsement ekPersistentHandle ekTemplate
            (failingAt 0 TPM_RC_FAILURE))
       = Inr (None, Some (ekTemplate\<lparr>unique := [1, 2, 3]\<rparr>))
   \<and> issued (snd (createPersistentPrimary ''EK'' Endorsement ekPersistentHandle ekTemplate
                    (failingAt 0 TPM_RC_FAILURE)))
       = [Cmd_ReadPublic ekPersistentHandle, Cmd_CreatePrimary Endorsement ekTemplate,
          Cmd_EvictControl Owner 0x80000001 ekPersistentHandle, Cmd_FlushContext 0x80000001]"
  by (simp add: createPersistentPrimary_def failingAt_def toyModule_def tpm_defs const_defs
      Let_def)

text \<open>
  C5, as the code has it.  When the module fails none of the commands of the two calls
  (the first read apart, which it answers with not-found when the object is absent),
  provisioning a persistent handle twice in sequence is idempotent: the second call
  returns the same callback arguments as the first, no error and a descriptor, and issues
  the read of the public area and no other command.
\<close>

theorem provisioning_twice:
  assumes nofault: "\<forall>k<5. forced t (length (issued t) + k) = TPM_RC_SUCCESS"
      and pers: "0x81000000 \<le> hnd"
  shows "fst (createPersistentPrimary name hierarchy hnd template
                (snd (createPersistentPrimary name hierarchy hnd template t)))
           = fst (createPersistentPrimary name hierarchy hnd template t)
       \<and> (\<exists>pub. fst (createPersistentPrimary name hierarchy hnd template t)
                  = Inr (None, Some pub))
       \<and> issued (snd (createPersistentPrimary name hierarchy hnd template
                         (snd (createPersistentPrimary name hierarchy hnd template t))))
           = issued (snd (createPersistentPrimary name hierarchy hnd template t))
               @ [Cmd_ReadPublic hnd]"
proof -
  have f0: "forced t (length (issued t)) = TPM_RC_SUCCESS" using nofault by force
  have f1: "forced t (Suc (length (issued t))) = TPM_RC_SUCCESS"
    using nofault [rule_format, of 1] by simp
  have f2: "forced t (Suc (Suc (length (issued t)))) = TPM_RC_SUCCESS"
    using nofault [rule_format, of 2] by (simp add: eval_nat_numeral)
  have f3: "forced t (Suc (Suc (Suc (length (issued t))))) = TPM_RC_SUCCESS"
    using nofault [rule_format, of 3] by (simp add: numeral_3_eq_3)
  have f4: "forced t (Suc (Suc (Suc (Suc (length (issued t)))))) = TPM_RC_SUCCESS"
    using nofault [rule_format, of 4] by (simp add: eval_nat_numeral)
  show ?thesis
  proof (cases "findObject t hnd")
    case (Some ob)
    have one: "createPersistentPrimary name hierarchy hnd template t =
           (Inr (None, Some (objPublic ob)), respond (Cmd_ReadPublic hnd) TPM_RC_SUCCESS t)"
      using Some f0 by (rule createPersistentPrimary_found)
    have two: "createPersistentPrimary name hierarchy hnd template
                 (respond (Cmd_ReadPublic hnd) TPM_RC_SUCCESS t) =
           (Inr (None, Some (objPublic ob)),
            respond (Cmd_ReadPublic hnd) TPM_RC_SUCCESS
              (respond (Cmd_ReadPublic hnd) TPM_RC_SUCCESS t))"
      using Some f1 by (intro createPersistentPrimary_found) simp_all
    show ?thesis by (simp add: one two)
  next
    case None
    note first = createPersistentPrimary_absent
                   [OF None f0 f1 f2 f3 pers, of name hierarchy template]
    obtain created where iss:
      "issued (snd (createPersistentPrimary name hierarchy hnd template t)) =
         issued t @ [Cmd_ReadPublic hnd, Cmd_CreatePrimary hierarchy template,
                     Cmd_EvictControl Owner created hnd, Cmd_FlushContext created]"
      using first(4) by blast
    have f: "forced (snd (createPersistentPrimary name hierarchy hnd template t))
               (length (issued (snd (createPersistentPrimary name hierarchy hnd template t))))
             = TPM_RC_SUCCESS"
      using f4 by (simp add: first(3) iss)
    show ?thesis
      by (simp add: createPersistentPrimary_found [OF first(2) f] first(1))
  qed
qed

theorem provisioning_twice_witness:
  "fst (createPersistentPrimary ''EK'' Endorsement ekPersistentHandle ekTemplate
          (snd (createPersistentPrimary ''EK'' Endorsement ekPersistentHandle ekTemplate
                  toyModule)))
     = Inr (None, Some (ekTemplate\<lparr>unique := [1, 2, 3]\<rparr>))
   \<and> issued (snd (createPersistentPrimary ''EK'' Endorsement ekPersistentHandle ekTemplate
                    (snd (createPersistentPrimary ''EK'' Endorsement ekPersistentHandle
                            ekTemplate toyModule))))
       = issued (snd (createPersistentPrimary ''EK'' Endorsement ekPersistentHandle ekTemplate
                        toyModule)) @ [Cmd_ReadPublic ekPersistentHandle]"
proof -
  have nofault: "\<forall>k<5. forced toyModule (length (issued toyModule) + k) = TPM_RC_SUCCESS"
    by (simp add: toyModule_def)
  have pers: "0x81000000 \<le> ekPersistentHandle" by (simp add: ekPersistentHandle_def)
  have first: "fst (createPersistentPrimary ''EK'' Endorsement ekPersistentHandle ekTemplate
                      toyModule) = Inr (None, Some (ekTemplate\<lparr>unique := [1, 2, 3]\<rparr>))"
    by (simp add: createPersistentPrimary_def toyModule_def ReadPublic_def CreatePrimary_def
        verdict_def respond_def findObject_def const_defs Let_def)
  show ?thesis
    using provisioning_twice [OF nofault pers, of "''EK''" Endorsement ekTemplate] first
    by simp
qed

text \<open>
  C5, as the claim states it, fails: the module fails the persist step of the first call
  (its third command), which the provisioner does not read; the first call still calls
  back with a descriptor and no error, and the second call finds the handle empty and
  creates, persists and releases again.
\<close>

theorem second_provisioning_creates_again:
  "fst (createPersistentPrimary ''EK'' Endorsement ekPersistentHandle ekTemplate
          (failingAt 2 TPM_RC_FAILURE))
     = Inr (None, Some (ekTemplate\<lparr>unique := [1, 2, 3]\<rparr>))
   \<and> issued (snd (createPersistentPrimary ''EK'' Endorsement ekPersistentHandle ekTemplate
                    (snd (createPersistentPrimary ''EK'' Endorsement ekPersistentHandle
                            ekTemplate (failingAt 2 TPM_RC_FAILURE)))))
       = issued (snd (createPersistentPrimary ''EK'' Endorsement ekPersistentHandle ekTemplate
                        (failingAt 2 TPM_RC_FAILURE)))
           @ [Cmd_ReadPublic ekPersistentHandle, Cmd_CreatePrimary Endorsement ekTemplate,
              Cmd_EvictControl Owner 0x80000005 ekPersistentHandle,
              Cmd_FlushContext 0x80000005]"
  by (simp add: createPersistentPrimary_def failingAt_def toyModule_def tpm_defs const_defs
      Let_def)

subsection \<open>Closed facts about the instances\<close>

lemmas client_defs = newClient_def provision_def createPersistentPrimary_def handle_def
  afterConnect_def activateSymmetricIdentity_def activateSymmetricIdentityInner_def
  unmarshalActivationBlob_def activationHandshake_def persistIdKey_def enterDisconnected_def
  signWithIdentity_def signData_def hashAlgOf_def deliverEndorsementKey_def
  getEndorsementKey_def connectedClient_def

lemmas toy_defs = toyModule_def failingAt_def silentModule_def toyEnv_def readSized_def slice_def
  goodBlob_def truncatedBlob_def

lemma unmarshal_truncatedBlob:
  "unmarshalActivationBlob toyEnv truncatedBlob = Inl (MarshalError 13)"
  by (simp add: unmarshalActivationBlob_def toy_defs)

lemma unmarshal_goodBlob:
  "unmarshalActivationBlob toyEnv goodBlob =
     Inr ([0xC1], [0xE5], [0xD0, 0xD1], [0xE7],
          \<lparr>nameAlg = TPM_ALG_SHA256, objectAttributes = 0x40, authPolicy = [],
            parameters = TPMS_KEYEDHASH_PARMS TPM_ALG_SHA256, unique = [0x1D]\<rparr>)"
  by (simp add: unmarshalActivationBlob_def toy_defs)

lemma connectedClient_Connected:
  "fsmState (connectedClient toyModule) = Connected"
  "fsmState (activatedClient silentModule) = Connected"
  "fsmState (connectedClient (failingAt 10 TPM_RC_FAILURE)) = Connected"
  by (simp_all add: client_defs activatedClient_def toy_defs tpm_defs const_defs Let_def)

text \<open>A module that fails the creation of the endorsement key (its third command)
  answers without a public area: the provisioner raises after the creation, nothing is
  persisted, the caller's callback is not invoked and the machine stays in
  \<^verbatim>\<open>connecting\<close>.\<close>

lemma failed_creation_raises:
  "map_option fst (handle toyEnv (In_getEndorsementKey UserCallback)
                     (newClient None (failingAt 2 TPM_RC_FAILURE))) = Some (Thrown TypeError)"
  "fsmState (snd (provision (newClient None (failingAt 2 TPM_RC_FAILURE)))) = Connecting"
  "issued (tpm (snd (provision (newClient None (failingAt 2 TPM_RC_FAILURE)))))
     = [Cmd_Connect, Cmd_ReadPublic ekPersistentHandle, Cmd_CreatePrimary Endorsement ekTemplate]"
  by (simp_all add: client_defs toy_defs tpm_defs const_defs Let_def)

lemma blobs_not_empty: "truncatedBlob \<noteq> []" "goodBlob \<noteq> []"
  by (simp_all add: truncatedBlob_def goodBlob_def)

lemma session_refused:
  "activateSymmetricIdentityInner toyEnv goodBlob (connectedClient (failingAt 10 TPM_RC_FAILURE))
     = (Failed (SecurityDeviceError (AuthSessionFailed TPM_RC_FAILURE)),
        snd (activateSymmetricIdentityInner toyEnv goodBlob
               (connectedClient (failingAt 10 TPM_RC_FAILURE))))"
proof -
  have "fst (activateSymmetricIdentityInner toyEnv goodBlob
               (connectedClient (failingAt 10 TPM_RC_FAILURE)))
          = Failed (SecurityDeviceError (AuthSessionFailed TPM_RC_FAILURE))"
    by (simp add: client_defs toy_defs tpm_defs const_defs Let_def)
  then show ?thesis by (metis prod.collapse)
qed

subsection \<open>The preconditions of signing\<close>

text \<open>
  C6, as the code has it.  \<^verbatim>\<open>signWithIdentity\<close> called with null or with an empty
  buffer raises the validation error, and called with data while no identity key
  descriptor is set it raises InvalidOperationError; in both cases the client, its module
  and its state machine are as they were, so nothing was sent to the module and nothing
  was dispatched.  A new client has no descriptor, and an activation that fails in the
  unmarshalling leaves the descriptor as it was.
\<close>

theorem signWithIdentity_preconditions:
  "(dataToSign = None \<or> dataToSign = Some [] \<longrightarrow>
      signWithIdentity env dataToSign c = Some (Thrown ReferenceError, c))
   \<and> (idKeyPub c = None \<and> dataToSign = Some d \<and> d \<noteq> [] \<longrightarrow>
      signWithIdentity env dataToSign c = Some (Thrown InvalidOperationError, c))
   \<and> idKeyPub (newClient rid customTpm) = None
   \<and> (unmarshalActivationBlob env blob = Inl e \<longrightarrow>
      idKeyPub (snd (activateSymmetricIdentityInner env blob c)) = idKeyPub c)"
  by (auto simp: signWithIdentity_def newClient_def activateSymmetricIdentityInner_def)

theorem signWithIdentity_preconditions_witness:
  "signWithIdentity toyEnv None (newClient None toyModule)
     = Some (Thrown ReferenceError, newClient None toyModule)
   \<and> signWithIdentity toyEnv (Some []) (newClient None toyModule)
     = Some (Thrown ReferenceError, newClient None toyModule)
   \<and> signWithIdentity toyEnv (Some [1]) (newClient None toyModule)
     = Some (Thrown InvalidOperationError, newClient None toyModule)
   \<and> idKeyPub (snd (activateSymmetricIdentityInner toyEnv truncatedBlob
                       (newClient None toyModule))) = None"
  using signWithIdentity_preconditions
          [of None toyEnv "newClient None toyModule" "[]" None toyModule truncatedBlob
             "MarshalError 13"]
        signWithIdentity_preconditions
          [of "Some []" toyEnv "newClient None toyModule" "[]" None toyModule truncatedBlob
             "MarshalError 13"]
        signWithIdentity_preconditions
          [of "Some [1]" toyEnv "newClient None toyModule" "[1]" None toyModule truncatedBlob
             "MarshalError 13"]
        unmarshal_truncatedBlob
  by simp

text \<open>
  C6, as the claim states it, fails: no activation has succeeded, yet signing is not
  refused.  A new client activates a well-formed blob on a module that fails the
  credential activation (its 13th command); the activation ends in a device error, and
  the following \<^verbatim>\<open>signWithIdentity\<close> raises no InvalidOperationError: it reconnects and
  hands the caller the module's answer.
\<close>

theorem signing_after_failed_activation_is_not_refused:
  "(case activateSymmetricIdentity toyEnv (Some goodBlob)
           (newClient None (failingAt 12 TPM_RC_FAILURE)) of
      None \<Rightarrow> False
    | Some (out, c') \<Rightarrow>
        out = Failed (SecurityDeviceError (ActivateCredentialFailed TPM_RC_FAILURE))
        \<and> map_option fst (signWithIdentity toyEnv (Some [1, 2]) c')
            = Some (Returned (Buf [])))"
  by (simp add: client_defs toy_defs tpm_defs const_defs Let_def)

subsection \<open>Activation\<close>

lemma provision_ok_connected:
  "fst (provision c) = Inr None \<Longrightarrow> fsmState (snd (provision c)) = Connected"
  by (auto simp: provision_def Let_def case_prod_beta split: option.splits sum.splits)

text \<open>
  C10.  When the unmarshalling of a non-empty activation blob raises, the exception
  leaves \<^verbatim>\<open>activateSymmetricIdentity\<close>: the caller's callback is not invoked, and the
  client stays as it was when the routine was entered, connected.  That is so when the
  call finds the machine connected, and when it finds it disconnected and the
  connection succeeds.
\<close>

theorem unmarshalling_failure_is_thrown:
  assumes "unmarshalActivationBlob env blob = Inl e" and "blob \<noteq> []"
  shows "(fsmState c = Connected \<longrightarrow>
            activateSymmetricIdentity env (Some blob) c = Some (Thrown e, c))
       \<and> (fsmState c = Disconnected \<and> fst (provision c) = Inr None \<longrightarrow>
            activateSymmetricIdentity env (Some blob) c = Some (Thrown e, snd (provision c))
            \<and> fsmState (snd (provision c)) = Connected)"
  using assms
  by (auto simp: activateSymmetricIdentity_def handle_def afterConnect_def
      activateSymmetricIdentityInner_def provision_ok_connected split: prod.splits)

theorem unmarshalling_failure_is_thrown_witness:
  "activateSymmetricIdentity toyEnv (Some truncatedBlob) (connectedClient toyModule)
     = Some (Thrown (MarshalError 13), connectedClient toyModule)
   \<and> activateSymmetricIdentity toyEnv (Some truncatedBlob) (newClient None toyModule)
     = Some (Thrown (MarshalError 13), connectedClient toyModule)"
proof -
  have d: "fsmState (newClient None toyModule) = Disconnected"
    by (simp add: newClient_def)
  have p: "fst (provision (newClient None toyModule)) = Inr None"
    by (simp add: newClient_def provision_def createPersistentPrimary_def toyModule_def
        tpm_defs const_defs Let_def)
  show ?thesis
    using unmarshalling_failure_is_thrown
            [OF unmarshal_truncatedBlob blobs_not_empty(1), of "connectedClient toyModule"]
          unmarshalling_failure_is_thrown
            [OF unmarshal_truncatedBlob blobs_not_empty(1), of "newClient None toyModule"]
          connectedClient_Connected(1) d p
    by (simp add: connectedClient_def)
qed

text \<open>The exceptions on the way of a signing input through the state machine are those
  of a property access on null.\<close>

lemma signData_thrown: "signData d c = Some (Thrown e, c') \<Longrightarrow> e = TypeError"
  by (auto simp: signData_def Let_def case_prod_beta split: if_splits option.splits)

lemma connectedHandle_sign_thrown:
  assumes "connectedHandle env (In_signWithIdentity d) c = Some (Thrown e, c')"
  shows "e = TypeError"
proof (cases "signData d c")
  case None
  with assms show ?thesis by simp
next
  case (Some r)
  obtain o1 c1 where r: "r = (o1, c1)" by (cases r)
  have "o1 = Thrown e"
    using assms Some r by (cases o1) (auto simp: enterDisconnected_def)
  then show ?thesis using Some r signData_thrown by blast
qed

lemma provision_raises: "fst (provision c) = Inl e \<Longrightarrow> e = TypeError"
  by (auto simp: provision_def Let_def case_prod_beta
      dest: createPersistentPrimary_raises split: option.splits sum.splits)

lemma idKeyPub_provision: "idKeyPub (snd (provision c)) = idKeyPub c"
  by (simp add: provision_def Let_def case_prod_beta split: option.splits sum.splits)

lemma handle_sign_thrown:
  assumes "handle env (In_signWithIdentity d) c = Some (Thrown e, c')"
  shows "e = TypeError"
proof (cases "fsmState c")
  case Disconnected
  obtain r c1 where p: "provision c = (r, c1)" by (cases "provision c")
  show ?thesis
  proof (cases r)
    case (Inl raised)
    then have "e = raised"
      using assms Disconnected p by (simp add: handle_def afterConnect_def)
    moreover have "raised = TypeError"
      using provision_raises [of c raised] p Inl by simp
    ultimately show ?thesis by simp
  next
    case (Inr res)
    show ?thesis
    proof (cases res)
      case None
      then have "connectedHandle env (In_signWithIdentity d) c1 = Some (Thrown e, c')"
        using assms Disconnected p Inr by (simp add: handle_def afterConnect_def)
      then show ?thesis by (rule connectedHandle_sign_thrown)
    next
      case (Some err)
      then show ?thesis
        using assms Disconnected p Inr by (simp add: handle_def afterConnect_def)
    qed
  qed
next
  case Connecting
  then show ?thesis using assms by (simp add: handle_def)
next
  case Connected
  then have "connectedHandle env (In_signWithIdentity d) c = Some (Thrown e, c')"
    using assms by (simp add: handle_def)
  then show ?thesis by (rule connectedHandle_sign_thrown)
qed

lemma signWithIdentity_no_InvalidOperationError:
  assumes "idKeyPub c \<noteq> None" and "d \<noteq> []" and "signWithIdentity env (Some d) c = Some r"
  shows "fst r \<noteq> Thrown InvalidOperationError"
proof
  assume t: "fst r = Thrown InvalidOperationError"
  have "handle env (In_signWithIdentity d) c = Some (Thrown InvalidOperationError, snd r)"
    using assms t by (cases r) (auto simp: signWithIdentity_def)
  then have "InvalidOperationError = TypeError" by (rule handle_sign_thrown)
  then show False by simp
qed

lemma idKeyPub_after_inner:
  "unmarshalActivationBlob env blob = Inr (cr, se, du, wr, pub) \<Longrightarrow>
     idKeyPub (snd (activateSymmetricIdentityInner env blob c)) = Some pub"
  by (simp add: activateSymmetricIdentityInner_def Let_def case_prod_beta split: option.splits)

lemma idKeyPub_inner_thrown:
  "unmarshalActivationBlob env blob = Inl e \<Longrightarrow>
     idKeyPub (snd (activateSymmetricIdentityInner env blob c)) = idKeyPub c"
  by (simp add: activateSymmetricIdentityInner_def)

lemma idKeyPub_enterDisconnected [simp]: "idKeyPub (snd (enterDisconnected err c)) = idKeyPub c"
  by (simp add: enterDisconnected_def)

text \<open>The activation handler of \<^verbatim>\<open>connected\<close> always comes to a result, and the
  descriptor it leaves is the one the activation routine leaves.\<close>

lemma connectedHandle_activate:
  "\<exists>out c'. connectedHandle env (In_activateSymmetricIdentity blob) c = Some (out, c')
     \<and> idKeyPub c' = idKeyPub (snd (activateSymmetricIdentityInner env blob c))"
proof -
  obtain o1 c1 where i: "activateSymmetricIdentityInner env blob c = (o1, c1)"
    by (cases "activateSymmetricIdentityInner env blob c")
  show ?thesis using i by (cases o1) (simp_all add: enterDisconnected_def)
qed

text \<open>An activation with a non-empty blob always comes to a result.  It reaches the
  activation routine when it finds the machine connected, or disconnected and the
  connection succeeds; otherwise it leaves the descriptor as it was.\<close>

lemma activate_reaches:
  assumes "blob \<noteq> []"
      and "fsmState c = Connected \<or> fsmState c = Disconnected \<and> fst (provision c) = Inr None"
  shows "\<exists>out c' c0. activateSymmetricIdentity env (Some blob) c = Some (out, c')
           \<and> idKeyPub c0 = idKeyPub c
           \<and> idKeyPub c' = idKeyPub (snd (activateSymmetricIdentityInner env blob c0))"
proof (cases "fsmState c = Connected")
  case True
  then show ?thesis
    using assms(1) connectedHandle_activate [of env blob c]
    by (auto simp: activateSymmetricIdentity_def handle_def)
next
  case False
  then have d: "fsmState c = Disconnected" and p: "fst (provision c) = Inr None"
    using assms(2) by auto
  obtain c1 where p1: "provision c = (Inr None, c1)" using p by (cases "provision c") simp
  have k: "idKeyPub c1 = idKeyPub c" using idKeyPub_provision [of c] p1 by simp
  show ?thesis
    using assms(1) d p1 k connectedHandle_activate [of env blob c1]
    by (auto simp: activateSymmetricIdentity_def handle_def afterConnect_def)
qed

lemma activate_not_reached:
  assumes "blob \<noteq> []"
      and "\<not> (fsmState c = Connected \<or> fsmState c = Disconnected \<and> fst (provision c) = Inr None)"
  shows "\<exists>out c'. activateSymmetricIdentity env (Some blob) c = Some (out, c')
           \<and> idKeyPub c' = idKeyPub c"
proof (cases "fsmState c")
  case Disconnected
  obtain r c1 where p1: "provision c = (r, c1)" by (cases "provision c")
  have k: "idKeyPub c1 = idKeyPub c" using idKeyPub_provision [of c] p1 by simp
  have "r \<noteq> Inr None" using assms(2) Disconnected p1 by simp
  then show ?thesis
    using assms(1) Disconnected p1 k
    by (cases r) (auto simp: activateSymmetricIdentity_def handle_def afterConnect_def
                   split: option.splits)
next
  case Connecting
  then show ?thesis
    using assms(1) by (simp add: activateSymmetricIdentity_def handle_def)
next
  case Connected
  then show ?thesis using assms(2) by simp
qed

text \<open>
  C2, as the code has it.  The identity key descriptor is assigned by the unmarshalling
  (line 300), before the first command of the handshake.  An activation with a non-empty
  blob, whatever the state it finds the machine in, comes to a result.  When the blob
  cannot be unmarshalled, the descriptor is left as it was, and if there was none, the
  following \<^verbatim>\<open>signWithIdentity\<close> with data raises InvalidOperationError.  When the blob
  is unmarshalled and the call reaches the activation routine (the machine is connected,
  or disconnected and the connection succeeds), the descriptor is the blob's fifth field
  whatever the module then answers, and from then on \<^verbatim>\<open>signWithIdentity\<close> with data does
  not raise InvalidOperationError.  A call that does not reach the activation routine
  leaves the descriptor as it was.
\<close>

theorem descriptor_is_set_by_unmarshalling:
  assumes "blob \<noteq> []"
  shows "\<exists>out c'. activateSymmetricIdentity env (Some blob) c = Some (out, c')
       \<and> (unmarshalActivationBlob env blob = Inl e \<longrightarrow>
            idKeyPub c' = idKeyPub c
            \<and> (idKeyPub c = None \<longrightarrow>
                 (\<forall>d. d \<noteq> [] \<longrightarrow>
                    signWithIdentity env (Some d) c' = Some (Thrown InvalidOperationError, c'))))
       \<and> (unmarshalActivationBlob env blob = Inr (cr, se, du, wr, pub)
            \<and> (fsmState c = Connected
               \<or> fsmState c = Disconnected \<and> fst (provision c) = Inr None) \<longrightarrow>
            idKeyPub c' = Some pub
            \<and> (\<forall>d r. d \<noteq> [] \<and> signWithIdentity env (Some d) c' = Some r \<longrightarrow>
                   fst r \<noteq> Thrown InvalidOperationError))
       \<and> (\<not> (fsmState c = Connected
               \<or> fsmState c = Disconnected \<and> fst (provision c) = Inr None) \<longrightarrow>
            idKeyPub c' = idKeyPub c)"
proof (cases "fsmState c = Connected \<or> fsmState c = Disconnected \<and> fst (provision c) = Inr None")
  case True
  obtain out c' c0 where
    act: "activateSymmetricIdentity env (Some blob) c = Some (out, c')"
    and k0: "idKeyPub c0 = idKeyPub c"
    and k: "idKeyPub c' = idKeyPub (snd (activateSymmetricIdentityInner env blob c0))"
    using activate_reaches [OF assms True] by blast
  have a: "idKeyPub c' = idKeyPub c" if "unmarshalActivationBlob env blob = Inl e"
    using idKeyPub_inner_thrown [OF that, of c0] k k0 by simp
  have b: "idKeyPub c' = Some pub" if "unmarshalActivationBlob env blob = Inr (cr, se, du, wr, pub)"
    using idKeyPub_after_inner [OF that, of c0] k by simp
  have s: "signWithIdentity env (Some d) c' = Some (Thrown InvalidOperationError, c')"
    if "idKeyPub c' = None" and "d \<noteq> []" for d
    using that by (simp add: signWithIdentity_def)
  have n: "fst r \<noteq> Thrown InvalidOperationError"
    if "idKeyPub c' = Some pub" and "d \<noteq> []" and "signWithIdentity env (Some d) c' = Some r"
    for d r
  proof -
    have "idKeyPub c' \<noteq> None" using that(1) by simp
    then show ?thesis using that(2,3) by (rule signWithIdentity_no_InvalidOperationError)
  qed
  have A: "unmarshalActivationBlob env blob = Inl e \<longrightarrow>
            idKeyPub c' = idKeyPub c
            \<and> (idKeyPub c = None \<longrightarrow>
                 (\<forall>d. d \<noteq> [] \<longrightarrow>
                    signWithIdentity env (Some d) c' = Some (Thrown InvalidOperationError, c')))"
    using a s by simp
  have B: "unmarshalActivationBlob env blob = Inr (cr, se, du, wr, pub)
            \<and> (fsmState c = Connected
               \<or> fsmState c = Disconnected \<and> fst (provision c) = Inr None) \<longrightarrow>
            idKeyPub c' = Some pub
            \<and> (\<forall>d r. d \<noteq> [] \<and> signWithIdentity env (Some d) c' = Some r \<longrightarrow>
                   fst r \<noteq> Thrown InvalidOperationError)"
  proof (intro impI conjI allI)
    assume h: "unmarshalActivationBlob env blob = Inr (cr, se, du, wr, pub)
            \<and> (fsmState c = Connected
               \<or> fsmState c = Disconnected \<and> fst (provision c) = Inr None)"
    then show k': "idKeyPub c' = Some pub" using b by simp
    fix d r
    assume dr: "d \<noteq> [] \<and> signWithIdentity env (Some d) c' = Some r"
    show "fst r \<noteq> Thrown InvalidOperationError"
      by (rule n [OF k' conjunct1 [OF dr] conjunct2 [OF dr]])
  qed
  have C: "\<not> (fsmState c = Connected
               \<or> fsmState c = Disconnected \<and> fst (provision c) = Inr None) \<longrightarrow>
            idKeyPub c' = idKeyPub c"
    using True by simp
  show ?thesis by (intro exI [of _ out] exI [of _ c'] conjI act A B C)
next
  case False
  obtain out c' where
    act: "activateSymmetricIdentity env (Some blob) c = Some (out, c')"
    and k: "idKeyPub c' = idKeyPub c"
    using activate_not_reached [OF assms False] by blast
  have s: "signWithIdentity env (Some d) c' = Some (Thrown InvalidOperationError, c')"
    if "idKeyPub c' = None" and "d \<noteq> []" for d
    using that by (simp add: signWithIdentity_def)
  have A: "unmarshalActivationBlob env blob = Inl e \<longrightarrow>
            idKeyPub c' = idKeyPub c
            \<and> (idKeyPub c = None \<longrightarrow>
                 (\<forall>d. d \<noteq> [] \<longrightarrow>
                    signWithIdentity env (Some d) c' = Some (Thrown InvalidOperationError, c')))"
    using k s by simp
  have B: "unmarshalActivationBlob env blob = Inr (cr, se, du, wr, pub)
            \<and> (fsmState c = Connected
               \<or> fsmState c = Disconnected \<and> fst (provision c) = Inr None) \<longrightarrow>
            idKeyPub c' = Some pub
            \<and> (\<forall>d r. d \<noteq> [] \<and> signWithIdentity env (Some d) c' = Some r \<longrightarrow>
                   fst r \<noteq> Thrown InvalidOperationError)"
  proof
    assume "unmarshalActivationBlob env blob = Inr (cr, se, du, wr, pub)
            \<and> (fsmState c = Connected
               \<or> fsmState c = Disconnected \<and> fst (provision c) = Inr None)"
    then have "fsmState c = Connected
               \<or> fsmState c = Disconnected \<and> fst (provision c) = Inr None"
      by (rule conjunct2)
    with False show "idKeyPub c' = Some pub
            \<and> (\<forall>d r. d \<noteq> [] \<and> signWithIdentity env (Some d) c' = Some r \<longrightarrow>
                   fst r \<noteq> Thrown InvalidOperationError)"
      by (rule notE)
  qed
  have C: "\<not> (fsmState c = Connected
               \<or> fsmState c = Disconnected \<and> fst (provision c) = Inr None) \<longrightarrow>
            idKeyPub c' = idKeyPub c"
    using k by simp
  show ?thesis by (intro exI [of _ out] exI [of _ c'] conjI act A B C)
qed

theorem descriptor_is_set_by_unmarshalling_witness:
  "(\<exists>out c'. activateSymmetricIdentity toyEnv (Some truncatedBlob) (newClient None toyModule)
                 = Some (out, c')
       \<and> idKeyPub c' = None
       \<and> signWithIdentity toyEnv (Some [1]) c' = Some (Thrown InvalidOperationError, c'))
   \<and> (\<exists>out c'. activateSymmetricIdentity toyEnv (Some goodBlob) (newClient None toyModule)
                  = Some (out, c')
        \<and> idKeyPub c' = Some \<lparr>nameAlg = TPM_ALG_SHA256, objectAttributes = 0x40,
                                authPolicy = [],
                                parameters = TPMS_KEYEDHASH_PARMS TPM_ALG_SHA256,
                                unique = [0x1D]\<rparr>
        \<and> (\<forall>r. signWithIdentity toyEnv (Some [1]) c' = Some r
                 \<longrightarrow> fst r \<noteq> Thrown InvalidOperationError))"
proof -
  let ?new = "newClient None toyModule"
  let ?pub = "\<lparr>nameAlg = TPM_ALG_SHA256, objectAttributes = 0x40, authPolicy = [],
               parameters = TPMS_KEYEDHASH_PARMS TPM_ALG_SHA256, unique = [0x1D]\<rparr>"
  have d: "fsmState ?new = Disconnected" and k: "idKeyPub ?new = None"
    by (simp_all add: newClient_def)
  have p: "fst (provision ?new) = Inr None"
    by (simp add: newClient_def provision_def createPersistentPrimary_def toyModule_def
        tpm_defs const_defs Let_def)
  have ne: "[1 :: byte] \<noteq> []" by simp
  obtain out1 c1 where
    act1: "activateSymmetricIdentity toyEnv (Some truncatedBlob) ?new = Some (out1, c1)"
    and imp1: "unmarshalActivationBlob toyEnv truncatedBlob = Inl (MarshalError 13) \<longrightarrow>
            idKeyPub c1 = idKeyPub ?new
            \<and> (idKeyPub ?new = None \<longrightarrow>
                 (\<forall>d. d \<noteq> [] \<longrightarrow>
                    signWithIdentity toyEnv (Some d) c1
                      = Some (Thrown InvalidOperationError, c1)))"
    using descriptor_is_set_by_unmarshalling
            [OF blobs_not_empty(1), where env = toyEnv and c = ?new and e = "MarshalError 13"
               and cr = "[]" and se = "[]" and du = "[]" and wr = "[]" and pub = ?pub]
    by (elim exE conjE) (rule that)
  have one: "\<exists>out c'. activateSymmetricIdentity toyEnv (Some truncatedBlob) ?new = Some (out, c')
       \<and> idKeyPub c' = None
       \<and> signWithIdentity toyEnv (Some [1]) c' = Some (Thrown InvalidOperationError, c')"
    using act1 imp1 unmarshal_truncatedBlob k ne by auto
  obtain out2 c2 where
    act2: "activateSymmetricIdentity toyEnv (Some goodBlob) ?new = Some (out2, c2)"
    and imp2: "unmarshalActivationBlob toyEnv goodBlob
                 = Inr ([0xC1], [0xE5], [0xD0, 0xD1], [0xE7], ?pub)
            \<and> (fsmState ?new = Connected
               \<or> fsmState ?new = Disconnected \<and> fst (provision ?new) = Inr None) \<longrightarrow>
            idKeyPub c2 = Some ?pub
            \<and> (\<forall>d r. d \<noteq> [] \<and> signWithIdentity toyEnv (Some d) c2 = Some r \<longrightarrow>
                   fst r \<noteq> Thrown InvalidOperationError)"
    using descriptor_is_set_by_unmarshalling
            [OF blobs_not_empty(2), where env = toyEnv and c = ?new and cr = "[0xC1]"
               and se = "[0xE5]" and du = "[0xD0, 0xD1]" and wr = "[0xE7]" and pub = ?pub
               and e = "MarshalError 13"]
    by (elim exE conjE) (rule that)
  have k2: "idKeyPub c2 = Some ?pub"
    and s2: "\<forall>d r. d \<noteq> [] \<and> signWithIdentity toyEnv (Some d) c2 = Some r \<longrightarrow>
                   fst r \<noteq> Thrown InvalidOperationError"
    using imp2 unmarshal_goodBlob d p by simp_all
  have two: "\<exists>out c'. activateSymmetricIdentity toyEnv (Some goodBlob) ?new = Some (out, c')
        \<and> idKeyPub c' = Some ?pub
        \<and> (\<forall>r. signWithIdentity toyEnv (Some [1]) c' = Some r
                 \<longrightarrow> fst r \<noteq> Thrown InvalidOperationError)"
  proof (intro exI [of _ out2] exI [of _ c2] conjI allI impI)
    show "activateSymmetricIdentity toyEnv (Some goodBlob) ?new = Some (out2, c2)" by (rule act2)
    show "idKeyPub c2 = Some ?pub" by (rule k2)
    fix r
    assume sr: "signWithIdentity toyEnv (Some [1]) c2 = Some r"
    show "fst r \<noteq> Thrown InvalidOperationError"
      by (rule s2 [rule_format, OF conjI [OF ne sr]])
  qed
  show ?thesis using one two by (rule conjI)
qed

text \<open>
  C2, as the claim states it, fails: a new client activates a well-formed blob on a
  module that refuses the authorization session (its eleventh command, after the
  connection and the provisioning).  The activation fails with a device error, the
  descriptor is set all the same, and the following \<^verbatim>\<open>signWithIdentity\<close> raises no
  InvalidOperationError: it reconnects and hands the caller what the module answers.
\<close>

theorem descriptor_set_although_activation_failed:
  "(case activateSymmetricIdentity toyEnv (Some goodBlob)
           (newClient None (failingAt 10 TPM_RC_FAILURE)) of
      None \<Rightarrow> False
    | Some (out, c') \<Rightarrow>
        out = Failed (SecurityDeviceError (AuthSessionFailed TPM_RC_FAILURE))
        \<and> idKeyPub c' \<noteq> None
        \<and> map_option fst (signWithIdentity toyEnv (Some [1]) c') = Some (Returned (Buf [])))"
  by (simp add: client_defs toy_defs tpm_defs const_defs Let_def)

subsection \<open>The persisted identity key\<close>

lemma persistent_handshake_steps [simp]:
  "persistent (snd (GetRandom n t)) = persistent t"
  "persistent (snd (StartAuthSession nonce t)) = persistent t"
  "persistent (PolicySecret a s t) = persistent t"
  "persistent (snd (ActivateCredential ah kh cr se t)) = persistent t"
  "persistent (snd (Import ph k pu du sd kb t)) = persistent t"
  "persistent (snd (Load ph pr pu t)) = persistent t"
  "persistent (FlushContext h t) = persistent t"
  by (simp_all add: GetRandom_def StartAuthSession_def PolicySecret_def ActivateCredential_def
      Import_def Load_def FlushContext_def Let_def)


lemma transient_EvictControl [simp]: "transient (EvictControl a ob h t) = transient t"
  by (simp add: EvictControl_def Let_def)










subsection \<open>Failures while connected\<close>

lemma issued_connect: "issued (snd (connect t)) = issued t @ [Cmd_Connect]"
  by (simp add: connect_def Let_def)

lemma issued_createPersistentPrimary:
  "\<exists>rest. issued (snd (createPersistentPrimary name hi h te t))
            = issued t @ Cmd_ReadPublic h # rest"
  by (simp add: createPersistentPrimary_def Let_def case_prod_beta issued_ReadPublic
      issued_CreatePrimary issued_EvictControl issued_FlushContext split: option.splits)

lemma issued_provision:
  "\<exists>rest. issued (tpm (snd (provision c))) = issued (tpm c) @ Cmd_Connect # rest"
proof -
  let ?t1 = "snd (connect (tpm c))"
  let ?t2 = "snd (createPersistentPrimary ''EK'' Endorsement ekPersistentHandle ekTemplate ?t1)"
  obtain r1 where a: "issued ?t2 = issued ?t1 @ Cmd_ReadPublic ekPersistentHandle # r1"
    using issued_createPersistentPrimary by blast
  obtain r2 where b:
    "issued (snd (createPersistentPrimary ''SRK'' Owner srkPersistentHandle srkTemplate ?t2))
       = issued ?t2 @ Cmd_ReadPublic srkPersistentHandle # r2"
    using issued_createPersistentPrimary by blast
  show ?thesis
    by (auto simp: provision_def Let_def case_prod_beta a b issued_connect
        split: option.splits sum.splits)
qed

text \<open>
  C8, as the code has it.  When \<^verbatim>\<open>_signData\<close> or \<^verbatim>\<open>_activateSymmetricIdentity\<close> hands an
  error to its callback while the machine is connected, the call ends there: the
  caller's callback receives that error, the machine is disconnected, the two cached
  descriptors are cleared, and the module is as the failed routine left it (nothing is
  tried again).  Any input that finds the machine disconnected starts with a new
  connection and provisioning.
\<close>

theorem reported_failure_disconnects:
  assumes "fsmState c = Connected"
  shows "(signData d c = Some (Failed err, c1) \<longrightarrow>
            handle env (In_signWithIdentity d) c =
              Some (Failed err, c1\<lparr>fsmState := Disconnected, ek := None, srk := None\<rparr>))
       \<and> (activateSymmetricIdentityInner env blob c = (Failed err, c1) \<longrightarrow>
            handle env (In_activateSymmetricIdentity blob) c =
              Some (Failed err, c1\<lparr>fsmState := Disconnected, ek := None, srk := None\<rparr>))
       \<and> (\<forall>i c2. fsmState c2 = Disconnected \<longrightarrow>
            handle env i c2 = afterConnect env i (provision c2)
            \<and> (\<exists>rest. issued (tpm (snd (provision c2))) = issued (tpm c2) @ Cmd_Connect # rest))"
  using assms issued_provision
  by (simp add: handle_def enterDisconnected_def)

theorem reported_failure_disconnects_witness:
  "handle toyEnv (In_signWithIdentity [1]) (activatedClient silentModule)
     = Some (Failed (SecurityDeviceError UnexpectedCapability),
             (activatedClient silentModule)
               \<lparr>tpm := snd (GetCapability TPM_CAP_TPM_PROPERTIES TPM_PT_INPUT_BUFFER 1
                               (tpm (activatedClient silentModule))),
                fsmState := Disconnected, ek := None, srk := None\<rparr>)
   \<and> handle toyEnv (In_activateSymmetricIdentity goodBlob)
         (connectedClient (failingAt 10 TPM_RC_FAILURE))
     = Some (Failed (SecurityDeviceError (AuthSessionFailed TPM_RC_FAILURE)),
             (snd (activateSymmetricIdentityInner toyEnv goodBlob
                     (connectedClient (failingAt 10 TPM_RC_FAILURE))))
               \<lparr>fsmState := Disconnected, ek := None, srk := None\<rparr>)"
proof -
  have s: "signData [1] (activatedClient silentModule)
             = Some (Failed (SecurityDeviceError UnexpectedCapability),
                     (activatedClient silentModule)
                       \<lparr>tpm := snd (GetCapability TPM_CAP_TPM_PROPERTIES TPM_PT_INPUT_BUFFER 1
                                       (tpm (activatedClient silentModule)))\<rparr>)"
    by (simp add: client_defs activatedClient_def toy_defs tpm_defs const_defs Let_def)
  show ?thesis
    using reported_failure_disconnects [OF connectedClient_Connected(2), of "[1]"
            "SecurityDeviceError UnexpectedCapability" _ toyEnv] s
          reported_failure_disconnects [OF connectedClient_Connected(3), of _
            "SecurityDeviceError (AuthSessionFailed TPM_RC_FAILURE)" _ toyEnv goodBlob]
          session_refused
    by simp
qed

text \<open>
  C8, as the claim states it, fails: an activation that fails while the machine is
  connected because its blob cannot be unmarshalled raises; the machine stays connected
  and the two cached descriptors stay in place.
\<close>

theorem thrown_failure_leaves_connected:
  "activateSymmetricIdentity toyEnv (Some truncatedBlob) (connectedClient toyModule)
     = Some (Thrown (MarshalError 13), connectedClient toyModule)
   \<and> fsmState (connectedClient toyModule) = Connected
   \<and> ek (connectedClient toyModule) = Some (ekTemplate\<lparr>unique := [1, 2, 3]\<rparr>)
   \<and> srk (connectedClient toyModule) = Some (srkTemplate\<lparr>unique := [1, 2, 3]\<rparr>)"
  by (simp add: client_defs toy_defs tpm_defs const_defs Let_def)

subsection \<open>Signing\<close>

lemma issued_SequenceUpdate:
  "issued (SequenceUpdate h chunk t) = issued t @ [Cmd_SequenceUpdate h chunk]"
  by (simp add: SequenceUpdate_def Let_def split: option.splits prod.splits)

lemma issued_SequenceComplete:
  "issued (snd (SequenceComplete h chunk hi t)) = issued t @ [Cmd_SequenceComplete h chunk hi]"
  by (simp add: SequenceComplete_def Let_def split: option.splits prod.splits)

lemma issued_HMAC_Start:
  "issued (snd (HMAC_Start h auth alg t)) = issued t @ [Cmd_HMAC_Start h auth alg]"
  by (simp add: HMAC_Start_def Let_def split: option.splits)

lemma issued_HMAC:
  "issued (snd (HMAC h d alg t)) = issued t @ [Cmd_HMAC h d alg]"
  by (simp add: HMAC_def Let_def)

lemma length_slice: "b \<le> length d \<Longrightarrow> length (slice d a b) = b - a"
  by (simp add: slice_def)

lemma loopFn_chunks:
  assumes "0 < r" and "r \<le> maxIn"
  shows "\<exists>resp t'. loopFn h d maxIn pos (k * maxIn + r) t = Some (resp, t')
           \<and> issued t' = issued t
                @ map (\<lambda>j. Cmd_SequenceUpdate h (slice d (pos + j * maxIn) (pos + j * maxIn + maxIn)))
                    [0..<k]
                @ [Cmd_SequenceComplete h (slice d (pos + k * maxIn) (pos + k * maxIn + r))
                     TPM_RH_NULL]"
proof (induction k arbitrary: pos t)
  case 0
  show ?case
    using assms
    by (subst loopFn.simps)
       (simp add: issued_SequenceComplete prod_eq_iff)
next
  case (Suc k)
  let ?t1 = "SequenceUpdate h (slice d pos (pos + maxIn)) t"
  have gt: "Suc k * maxIn + r > maxIn" using assms by simp
  have eq: "Suc k * maxIn + r - maxIn = k * maxIn + r" by simp
  obtain resp t' where
    run: "loopFn h d maxIn (pos + maxIn) (k * maxIn + r) ?t1 = Some (resp, t')"
    and iss: "issued t' = issued ?t1
                @ map (\<lambda>j. Cmd_SequenceUpdate h
                              (slice d (pos + maxIn + j * maxIn) (pos + maxIn + j * maxIn + maxIn)))
                    [0..<k]
                @ [Cmd_SequenceComplete h
                     (slice d (pos + maxIn + k * maxIn) (pos + maxIn + k * maxIn + r)) TPM_RH_NULL]"
    using Suc.IH [of "pos + maxIn" ?t1] by blast
  have "loopFn h d maxIn pos (Suc k * maxIn + r) t = Some (resp, t')"
    using gt run by (subst loopFn.simps) (simp only: eq if_True)
  moreover have "issued t' = issued t
                @ map (\<lambda>j. Cmd_SequenceUpdate h (slice d (pos + j * maxIn) (pos + j * maxIn + maxIn)))
                    [0..<Suc k]
                @ [Cmd_SequenceComplete h (slice d (pos + Suc k * maxIn) (pos + Suc k * maxIn + r))
                     TPM_RH_NULL]"
    unfolding iss issued_SequenceUpdate map_upt_Suc
    by (simp add: add.assoc add.commute add.left_commute)
  ultimately show ?case by blast
qed

lemma GetCapability_ok:
  assumes "forced t (length (issued t)) = TPM_RC_SUCCESS"
  shows "GetCapability cap prop n t = (properties t, respond (Cmd_GetCapability cap prop n) TPM_RC_SUCCESS t)"
  using assms by (simp add: GetCapability_def verdict_def Let_def)

lemma slice_append:
  assumes "a \<le> b" and "b \<le> c"
  shows "slice d a b @ slice d b c = slice d a c"
proof -
  have "take ((b - a) + (c - b)) (drop a d)
          = take (b - a) (drop a d) @ take (c - b) (drop (b - a) (drop a d))"
    by (rule take_add)
  moreover have "(b - a) + (c - b) = c - a" using assms by simp
  moreover have "drop (b - a) (drop a d) = drop b d" using assms by simp
  ultimately show ?thesis by (simp add: slice_def)
qed

lemma SequenceUpdate_fed:
  assumes "\<forall>n. forced t n = TPM_RC_SUCCESS" and "sequences t h = Some (key, alg, fed)"
  shows "sequences (SequenceUpdate h chunk t) h = Some (key, alg, fed @ chunk)"
    and "forced (SequenceUpdate h chunk t) = forced t"
    and "fw_hmac (SequenceUpdate h chunk t) = fw_hmac t"
  using assms by (simp_all add: SequenceUpdate_def verdict_def Let_def)

lemma SequenceComplete_digest:
  assumes "\<forall>n. forced t n = TPM_RC_SUCCESS" and "sequences t h = Some (key, alg, fed)"
  shows "fst (SequenceComplete h chunk hi t) = fw_hmac t key alg (fed @ chunk)"
  using assms by (simp add: SequenceComplete_def verdict_def Let_def)

lemma loopFn_digest:
  assumes "0 < r" and "r \<le> maxIn"
  shows "(\<forall>n. forced t n = TPM_RC_SUCCESS) \<Longrightarrow> sequences t h = Some (key, alg, fed) \<Longrightarrow>
         \<exists>t'. loopFn h d maxIn pos (k * maxIn + r) t
                 = Some (fw_hmac t key alg (fed @ slice d pos (pos + k * maxIn + r)), t')"
proof (induction k arbitrary: pos t fed)
  case 0
  show ?case
    using SequenceComplete_digest [OF 0] assms
    by (subst loopFn.simps) (simp add: prod_eq_iff)
next
  case (Suc k)
  let ?chunk = "slice d pos (pos + maxIn)"
  let ?t1 = "SequenceUpdate h ?chunk t"
  note upd = SequenceUpdate_fed [OF Suc.prems, of ?chunk]
  have gt: "Suc k * maxIn + r > maxIn" using assms by simp
  have eq: "Suc k * maxIn + r - maxIn = k * maxIn + r" by simp
  have ff: "\<forall>n. forced ?t1 n = TPM_RC_SUCCESS" using Suc.prems(1) upd(2) by simp
  obtain t' where
    run: "loopFn h d maxIn (pos + maxIn) (k * maxIn + r) ?t1
            = Some (fw_hmac ?t1 key alg
                      ((fed @ ?chunk) @ slice d (pos + maxIn) (pos + maxIn + k * maxIn + r)), t')"
    using Suc.IH [OF ff upd(1)] by blast
  have cat: "?chunk @ slice d (pos + maxIn) (pos + maxIn + k * maxIn + r)
               = slice d pos (pos + Suc k * maxIn + r)"
    using slice_append [of pos "pos + maxIn" "pos + maxIn + k * maxIn + r" d]
    by (simp add: add.assoc)
  have "loopFn h d maxIn pos (Suc k * maxIn + r) t
          = Some (fw_hmac t key alg (fed @ slice d pos (pos + Suc k * maxIn + r)), t')"
    using gt run cat upd(3)
    by (subst loopFn.simps) (simp only: eq if_True append_assoc)
  then show ?case by blast
qed

lemma chunked_digest_is_single_shot:
  assumes ff: "\<forall>n. forced t n = TPM_RC_SUCCESS"
      and key: "findObject t h = Some ob"
      and len: "length d = k * maxIn + r" and r: "0 < r" "r \<le> maxIn"
  shows "\<exists>t'. loopFn (fst (HMAC_Start h [] alg t)) d maxIn 0 (length d)
                 (snd (HMAC_Start h [] alg t))
               = Some (fst (HMAC h d alg t), t')"
proof -
  let ?st = "HMAC_Start h [] alg t"
  have s: "sequences (snd ?st) (fst ?st) = Some (objPrivate ob, alg, [])"
    and f: "\<forall>n. forced (snd ?st) n = TPM_RC_SUCCESS"
    and fw: "fw_hmac (snd ?st) = fw_hmac t"
    using ff key by (simp_all add: HMAC_Start_def verdict_def Let_def)
  have whole: "slice d 0 (0 + k * maxIn + r) = d"
    using len by (simp add: slice_def)
  have "fst (HMAC h d alg t) = fw_hmac t (objPrivate ob) alg d"
    using ff key by (simp add: HMAC_def verdict_def Let_def)
  then show ?thesis
    using loopFn_digest [OF r f s, of d 0 k] whole fw by (simp add: len)
qed

text \<open>
  C1, as far as the code goes.  The module answers the capability query with the one
  property \<open>m\<close>, and the data has \<open>k\<close> times \<open>m\<close> bytes and \<open>r\<close> more, \<open>r\<close> between 1
  and \<open>m\<close>.  Data that fits (\<open>k = 0\<close>) is signed by one HMAC command over the whole
  buffer and the signature reaches the caller.  Longer data starts a sequence that is fed
  \<open>k\<close> chunks of exactly \<open>m\<close> bytes and completed with the \<open>r\<close> bytes left, in the order
  of the data; but the callback of \<^verbatim>\<open>_signData\<close> is never invoked, so no signature
  reaches the caller, although the module computes the one of the whole buffer
  (\<open>chunked_digest_is_single_shot\<close>).
\<close>

theorem chunked_signing_never_calls_back:
  assumes key: "idKeyPub c = Some pub"
      and props: "properties (tpm c) = [(TPM_PT_INPUT_BUFFER, m)]"
      and answered: "forced (tpm c) (length (issued (tpm c))) = TPM_RC_SUCCESS"
      and len: "length d = k * unat m + r" and r: "0 < r" "r \<le> unat m"
  shows "(k = 0 \<longrightarrow>
            (\<exists>sig c'. signData d c = Some (Returned (Buf sig), c')
               \<and> issued (tpm c') = issued (tpm c)
                    @ [Cmd_GetCapability TPM_CAP_TPM_PROPERTIES TPM_PT_INPUT_BUFFER 1,
                       Cmd_HMAC idKeyPersistentHandle d (hashAlgOf pub)]))
       \<and> (0 < k \<longrightarrow>
            (\<exists>hSeq c'. signData d c = Some (NeverCalled, c')
               \<and> issued (tpm c') = issued (tpm c)
                    @ [Cmd_GetCapability TPM_CAP_TPM_PROPERTIES TPM_PT_INPUT_BUFFER 1,
                       Cmd_HMAC_Start idKeyPersistentHandle [] (hashAlgOf pub)]
                    @ map (\<lambda>j. Cmd_SequenceUpdate hSeq (slice d (j * unat m) (j * unat m + unat m)))
                        [0..<k]
                    @ [Cmd_SequenceComplete hSeq (slice d (k * unat m) (k * unat m + r))
                         TPM_RH_NULL]
               \<and> (\<forall>j<k. length (slice d (j * unat m) (j * unat m + unat m)) = unat m)
               \<and> length (slice d (k * unat m) (k * unat m + r)) = r))"
proof (intro conjI impI)
  assume "k = 0"
  then have "length d \<le> unat m" using len r by simp
  then show "\<exists>sig c'. signData d c = Some (Returned (Buf sig), c')
               \<and> issued (tpm c') = issued (tpm c)
                    @ [Cmd_GetCapability TPM_CAP_TPM_PROPERTIES TPM_PT_INPUT_BUFFER 1,
                       Cmd_HMAC idKeyPersistentHandle d (hashAlgOf pub)]"
    using props key
    by (simp add: signData_def GetCapability_ok [OF answered] Let_def case_prod_beta issued_HMAC)
next
  assume k: "0 < k"
  let ?t1 = "respond (Cmd_GetCapability TPM_CAP_TPM_PROPERTIES TPM_PT_INPUT_BUFFER 1)
               TPM_RC_SUCCESS (tpm c)"
  let ?st = "HMAC_Start idKeyPersistentHandle [] (hashAlgOf pub) ?t1"
  have long: "\<not> length d \<le> unat m"
  proof -
    have "1 * unat m \<le> k * unat m" using k by (intro mult_le_mono1) simp
    then have "unat m \<le> k * unat m" by (simp only: mult_1)
    then show ?thesis using len r by linarith
  qed
  obtain resp t' where
    run: "loopFn (fst ?st) d (unat m) 0 (k * unat m + r) (snd ?st) = Some (resp, t')"
    and iss: "issued t' = issued (snd ?st)
                @ map (\<lambda>j. Cmd_SequenceUpdate (fst ?st)
                              (slice d (0 + j * unat m) (0 + j * unat m + unat m))) [0..<k]
                @ [Cmd_SequenceComplete (fst ?st)
                     (slice d (0 + k * unat m) (0 + k * unat m + r)) TPM_RH_NULL]"
    using loopFn_chunks [OF r, of "fst ?st" d 0 k "snd ?st"] by blast
  have sd: "signData d c = Some (NeverCalled, c\<lparr>tpm := t'\<rparr>)"
    using props long run key
    by (simp add: signData_def GetCapability_ok [OF answered] Let_def case_prod_beta len)
  have chunks: "\<forall>j<k. length (slice d (j * unat m) (j * unat m + unat m)) = unat m"
  proof (intro allI impI)
    fix j assume "j < k"
    then have "Suc j \<le> k" by simp
    then have "Suc j * unat m \<le> k * unat m" by (rule mult_le_mono1)
    then have "j * unat m + unat m \<le> length d" using len by simp
    then show "length (slice d (j * unat m) (j * unat m + unat m)) = unat m"
      by (simp add: length_slice)
  qed
  have last: "length (slice d (k * unat m) (k * unat m + r)) = r"
    using len by (simp add: length_slice)
  show "\<exists>hSeq c'. signData d c = Some (NeverCalled, c')
               \<and> issued (tpm c') = issued (tpm c)
                    @ [Cmd_GetCapability TPM_CAP_TPM_PROPERTIES TPM_PT_INPUT_BUFFER 1,
                       Cmd_HMAC_Start idKeyPersistentHandle [] (hashAlgOf pub)]
                    @ map (\<lambda>j. Cmd_SequenceUpdate hSeq (slice d (j * unat m) (j * unat m + unat m)))
                        [0..<k]
                    @ [Cmd_SequenceComplete hSeq (slice d (k * unat m) (k * unat m + r))
                         TPM_RH_NULL]
               \<and> (\<forall>j<k. length (slice d (j * unat m) (j * unat m + unat m)) = unat m)
               \<and> length (slice d (k * unat m) (k * unat m + r)) = r"
    using sd iss chunks last
    by (intro exI [of _ "fst ?st"] exI [of _ "c\<lparr>tpm := t'\<rparr>"])
       (simp add: issued_HMAC_Start)
qed

theorem chunked_signing_never_calls_back_witness:
  "(\<exists>hSeq c'. signData [1, 2, 3] (activatedClient toyModule) = Some (NeverCalled, c')
       \<and> issued (tpm c') = issued (tpm (activatedClient toyModule))
            @ [Cmd_GetCapability TPM_CAP_TPM_PROPERTIES TPM_PT_INPUT_BUFFER 1,
               Cmd_HMAC_Start idKeyPersistentHandle [] (Some TPM_ALG_SHA256),
               Cmd_SequenceUpdate hSeq [1, 2],
               Cmd_SequenceComplete hSeq [3] TPM_RH_NULL])
   \<and> map_option fst (signWithIdentity toyEnv (Some [1, 2, 3]) (activatedClient toyModule))
       = Some NeverCalled
   \<and> map_option fst (signWithIdentity toyEnv (Some [1, 2]) (activatedClient toyModule))
       = Some (Returned (Buf [0xD0, 0xD1, 1, 2]))"
proof -
  have props: "properties (tpm (activatedClient toyModule)) = [(TPM_PT_INPUT_BUFFER, 2)]"
    by (simp add: client_defs activatedClient_def toy_defs tpm_defs const_defs Let_def)
  have answered: "forced (tpm (activatedClient toyModule))
                    (length (issued (tpm (activatedClient toyModule)))) = TPM_RC_SUCCESS"
    by (simp add: client_defs activatedClient_def toy_defs tpm_defs const_defs Let_def)
  have len: "length [1, 2, 3 :: byte] = 1 * unat (2 :: 32 word) + 1" by simp
  have pub: "idKeyPub (activatedClient toyModule)
               = Some \<lparr>nameAlg = TPM_ALG_SHA256, objectAttributes = 0x40, authPolicy = [],
                        parameters = TPMS_KEYEDHASH_PARMS TPM_ALG_SHA256, unique = [0x1D]\<rparr>"
    by (simp add: client_defs activatedClient_def toy_defs tpm_defs const_defs Let_def)
  have alg: "hashAlgOf \<lparr>nameAlg = TPM_ALG_SHA256, objectAttributes = 0x40, authPolicy = [],
                        parameters = TPMS_KEYEDHASH_PARMS TPM_ALG_SHA256, unique = [0x1D]\<rparr>
               = Some TPM_ALG_SHA256"
    by (simp add: hashAlgOf_def)
  have conn: "fsmState (activatedClient toyModule) = Connected"
    and key: "idKeyPub (activatedClient toyModule) \<noteq> None"
    by (simp_all add: client_defs activatedClient_def toy_defs tpm_defs const_defs Let_def)
  have short: "map_option fst (signData [1, 2] (activatedClient toyModule))
                 = Some (Returned (Buf [0xD0, 0xD1, 1, 2]))"
    by (simp add: client_defs activatedClient_def toy_defs tpm_defs const_defs Let_def)
  from chunked_signing_never_calls_back [OF pub props answered len]
  obtain hSeq c' where
    sd: "signData [1, 2, 3] (activatedClient toyModule) = Some (NeverCalled, c')"
    and iss: "issued (tpm c') = issued (tpm (activatedClient toyModule))
            @ [Cmd_GetCapability TPM_CAP_TPM_PROPERTIES TPM_PT_INPUT_BUFFER 1,
               Cmd_HMAC_Start idKeyPersistentHandle [] (Some TPM_ALG_SHA256),
               Cmd_SequenceUpdate hSeq [1, 2],
               Cmd_SequenceComplete hSeq [3] TPM_RH_NULL]"
    by (auto simp: alg slice_def)
  have "map_option fst (signWithIdentity toyEnv (Some [1, 2, 3]) (activatedClient toyModule))
       = Some NeverCalled"
    using sd conn key by (auto simp: signWithIdentity_def handle_def)
  moreover have "map_option fst (signWithIdentity toyEnv (Some [1, 2]) (activatedClient toyModule))
       = Some (Returned (Buf [0xD0, 0xD1, 1, 2]))"
    using short conn key
    by (cases "signData [1, 2] (activatedClient toyModule)")
       (auto simp: signWithIdentity_def handle_def)
  ultimately show ?thesis using sd iss by blast
qed

subsection \<open>The registration identifier\<close>

text \<open>The encoding on the test vectors of RFC 4648, section 10.\<close>

lemma base32Encode_vectors:
  "base32Encode [] = ''''"
  "base32Encode [102] = ''MY======''"
  "base32Encode [102, 111, 111, 98, 97] = ''MZXW6YTB''"
  "base32Encode [102, 111, 111, 98, 97, 114] = ''MZXW6YTBOI======''"
  by code_simp+

lemma toy_registrationId:
  "specRegistrationId toyEnv [1, 2, 3] = ''aebagaaaaaaaaaaaaaaaaaaaaaaaaaaaaaaaaaaaaaaaaaaaaaaa''"
  by code_simp

lemma handle_getEndorsementKey_callbacks:
  assumes "handle env (In_getEndorsementKey UserCallback) c = Some (Returned (Buf E), c1)"
  shows "handle env (In_getEndorsementKey RegistrationIdCallback) c =
           Some (Returned (Str (deriveRegistrationId env E)),
                 c1\<lparr>registrationId := deriveRegistrationId env E\<rparr>)"
  using assms
  by (auto simp: handle_def afterConnect_def deliverEndorsementKey_def
      split: fsm_state.splits prod.splits option.splits sum.splits)

lemma bitsToNat_bound_aux:
  "foldl (\<lambda>n b. 2 * n + (if b then 1 else 0)) (a :: nat) bs < (a + 1) * 2 ^ length bs"
proof (induction bs arbitrary: a)
  case Nil
  show ?case by simp
next
  case (Cons b bs)
  have "foldl (\<lambda>n b. 2 * n + (if b then 1 else 0)) (2 * a + (if b then 1 else 0)) bs
          < (2 * a + (if b then 1 else 0) + 1) * 2 ^ length bs"
    by (rule Cons.IH)
  also have "\<dots> \<le> (2 * a + 2) * 2 ^ length bs"
    by (intro mult_le_mono1) simp
  also have "\<dots> = (a + 1) * 2 ^ length (b # bs)" by simp
  finally show ?case by simp
qed

lemma bitsToNat_bound: "bitsToNat bs < 2 ^ length bs"
  using bitsToNat_bound_aux [of 0 bs] by (simp add: bitsToNat_def)

lemma quintets_length: "q \<in> set (quintets bs) \<Longrightarrow> length q = 5"
  by (induction bs rule: quintets.induct) auto

lemma quintets_nonempty: "bs \<noteq> [] \<Longrightarrow> quintets bs \<noteq> []"
  by (cases bs) simp_all

lemma alphabet_no_equals: "n < 32 \<Longrightarrow> base32Alphabet ! n \<noteq> CHR ''=''"
proof -
  assume "n < 32"
  then have "base32Alphabet ! n \<in> set base32Alphabet"
    by (intro nth_mem) (simp add: base32Alphabet_def)
  moreover have "CHR ''='' \<notin> set base32Alphabet"
    by (simp add: base32Alphabet_def)
  ultimately show ?thesis by metis
qed

lemma base32_output_no_equals:
  "CHR ''='' \<notin> set (map (\<lambda>q. base32Alphabet ! bitsToNat q) (quintets bits))"
proof
  assume "CHR ''='' \<in> set (map (\<lambda>q. base32Alphabet ! bitsToNat q) (quintets bits))"
  then obtain q where q: "q \<in> set (quintets bits)" and e: "base32Alphabet ! bitsToNat q = CHR ''=''"
    by auto
  have "bitsToNat q < 2 ^ 5" using bitsToNat_bound [of q] quintets_length [OF q] by simp
  then show False using alphabet_no_equals [of "bitsToNat q"] e by simp
qed

lemma toLowerCase_equals: "toLowerCase ch = CHR ''='' \<longleftrightarrow> ch = CHR ''=''"
proof
  assume a: "toLowerCase ch = CHR ''=''"
  show "ch = CHR ''=''"
  proof (cases "65 \<le> (of_char ch :: nat) \<and> (of_char ch :: nat) \<le> 90")
    case True
    then have "char_of ((of_char ch :: nat) + 32) = CHR ''=''"
      using a by (simp add: toLowerCase_def)
    then have "(of_char (char_of ((of_char ch :: nat) + 32)) :: nat) = of_char (CHR ''='')"
      by simp
    then have "((of_char ch :: nat) + 32) mod 256 = 61" by simp
    then show ?thesis using True by simp
  next
    case False
    then show ?thesis using a by (auto simp: toLowerCase_def split: if_splits)
  qed
next
  assume "ch = CHR ''=''"
  then show "toLowerCase ch = CHR ''=''" by (simp add: toLowerCase_def)
qed

lemma lower_no_equals:
  assumes "CHR ''='' \<notin> set xs"
  shows "CHR ''='' \<notin> set (map toLowerCase xs)"
proof
  assume "CHR ''='' \<in> set (map toLowerCase xs)"
  then obtain x where "x \<in> set xs" and "toLowerCase x = CHR ''=''" by auto
  then show False using assms toLowerCase_equals by metis
qed

lemma strip_padding:
  assumes "CHR ''='' \<notin> set xs"
  shows "removeEquals (xs @ replicate n (CHR ''='')) = xs"
    and "stripTrailingEquals (xs @ replicate n (CHR ''='')) = xs"
proof -
  show "removeEquals (xs @ replicate n (CHR ''='')) = xs"
    using assms by (auto simp: removeEquals_def filter_id_conv)
  have "dropWhile (\<lambda>ch. ch = CHR ''='') (replicate n (CHR ''='') @ rev xs)
          = dropWhile (\<lambda>ch. ch = CHR ''='') (rev xs)"
    by (simp add: dropWhile_append)
  also have "\<dots> = rev xs"
  proof (cases xs rule: rev_cases)
    case Nil
    then show ?thesis by simp
  next
    case (snoc ys y)
    then have "y \<noteq> CHR ''=''" using assms by auto
    then show ?thesis using snoc by simp
  qed
  finally show "stripTrailingEquals (xs @ replicate n (CHR ''='')) = xs"
    by (simp add: stripTrailingEquals_def)
qed

lemma deriveRegistrationId_spec: "deriveRegistrationId env E = specRegistrationId env E"
proof -
  let ?out = "map (\<lambda>q. base32Alphabet ! bitsToNat q) (quintets (concat (map bitsOfByte (sha256 env E))))"
  let ?n = "(8 - length ?out mod 8) mod 8"
  have enc: "map toLowerCase (base32Encode (sha256 env E))
               = map toLowerCase ?out @ replicate ?n (CHR ''='')"
    by (simp add: base32Encode_def Let_def toLowerCase_equals [THEN iffD2])
  have no: "CHR ''='' \<notin> set (map toLowerCase ?out)"
    by (rule lower_no_equals) (rule base32_output_no_equals)
  show ?thesis
    unfolding deriveRegistrationId_def specRegistrationId_def enc
    using strip_padding [OF no] by simp
qed

lemma bitsOfByte_nonempty: "bitsOfByte b \<noteq> []"
  by (simp add: bitsOfByte_def)

lemma deriveRegistrationId_nonempty:
  assumes "sha256 env E \<noteq> []"
  shows "deriveRegistrationId env E \<noteq> []"
proof -
  let ?bits = "concat (map bitsOfByte (sha256 env E))"
  let ?out = "map (\<lambda>q. base32Alphabet ! bitsToNat q) (quintets ?bits)"
  have "?bits \<noteq> []" using assms bitsOfByte_nonempty by (cases "sha256 env E") auto
  then have "?out \<noteq> []" using quintets_nonempty by simp
  moreover have "removeEquals (map toLowerCase (base32Encode (sha256 env E))) = map toLowerCase ?out"
  proof -
    have no: "CHR ''='' \<notin> set (map toLowerCase ?out)"
      by (rule lower_no_equals) (rule base32_output_no_equals)
    have "map toLowerCase (base32Encode (sha256 env E))
               = map toLowerCase ?out @ replicate ((8 - length ?out mod 8) mod 8) (CHR ''='')"
      by (simp add: base32Encode_def Let_def toLowerCase_equals [THEN iffD2])
    then show ?thesis using strip_padding(1) [OF no] by simp
  qed
  ultimately show ?thesis by (simp add: deriveRegistrationId_def)
qed

text \<open>
  C7.  A client that holds a non-empty registration identifier, as one constructed with
  such an identifier does, returns it from \<^verbatim>\<open>getRegistrationId\<close> and stays as it is, so
  every later call returns it again.  A client without one, whose retrieval of the
  endorsement key yields the bytes \<open>E\<close>, returns the identifier of the spec's words (the
  lowercase RFC 4648 base-32 encoding of the digest of \<open>E\<close> without the trailing
  \<^verbatim>\<open>=\<close>), which is what the source's removal of every \<^verbatim>\<open>=\<close> computes, and stores it;
  the next call returns the stored string and changes nothing, the module included.  The
  digest is the parameter \<open>sha256\<close>, of which the proof uses only that it is not empty.
\<close>

theorem registrationId_supplied_or_derived:
  "(registrationId c \<noteq> [] \<longrightarrow>
      getRegistrationId env c = Some (Returned (Str (registrationId c)), c))
   \<and> registrationId (newClient (Some rid) customTpm) = rid
   \<and> (registrationId c = [] \<and> getEndorsementKey env c = Some (Returned (Buf E), c1)
        \<and> sha256 env E \<noteq> [] \<longrightarrow>
      getRegistrationId env c =
        Some (Returned (Str (specRegistrationId env E)),
              c1\<lparr>registrationId := specRegistrationId env E\<rparr>)
      \<and> getRegistrationId env (c1\<lparr>registrationId := specRegistrationId env E\<rparr>) =
        Some (Returned (Str (specRegistrationId env E)),
              c1\<lparr>registrationId := specRegistrationId env E\<rparr>))"
proof (intro conjI impI)
  assume "registrationId c \<noteq> []"
  then show "getRegistrationId env c = Some (Returned (Str (registrationId c)), c)"
    by (simp add: getRegistrationId_def)
next
  show "registrationId (newClient (Some rid) customTpm) = rid"
    by (simp add: newClient_def)
next
  assume a: "registrationId c = [] \<and> getEndorsementKey env c = Some (Returned (Buf E), c1)
        \<and> sha256 env E \<noteq> []"
  then have h: "handle env (In_getEndorsementKey UserCallback) c = Some (Returned (Buf E), c1)"
    by (simp add: getEndorsementKey_def)
  show "getRegistrationId env c =
        Some (Returned (Str (specRegistrationId env E)),
              c1\<lparr>registrationId := specRegistrationId env E\<rparr>)"
    using a handle_getEndorsementKey_callbacks [OF h]
    by (simp add: getRegistrationId_def deriveRegistrationId_spec)
  have "specRegistrationId env E \<noteq> []"
    using a deriveRegistrationId_nonempty [of env E] by (simp add: deriveRegistrationId_spec)
  then show "getRegistrationId env (c1\<lparr>registrationId := specRegistrationId env E\<rparr>) =
        Some (Returned (Str (specRegistrationId env E)),
              c1\<lparr>registrationId := specRegistrationId env E\<rparr>)"
    by (simp add: getRegistrationId_def)
qed

theorem registrationId_supplied_or_derived_witness:
  "getRegistrationId toyEnv (newClient (Some ''abc123'') toyModule)
     = Some (Returned (Str ''abc123''), newClient (Some ''abc123'') toyModule)
   \<and> getRegistrationId toyEnv (newClient None toyModule)
     = Some (Returned (Str ''aebagaaaaaaaaaaaaaaaaaaaaaaaaaaaaaaaaaaaaaaaaaaaaaaa''),
             (connectedClient toyModule)
               \<lparr>registrationId := ''aebagaaaaaaaaaaaaaaaaaaaaaaaaaaaaaaaaaaaaaaaaaaaaaaa''\<rparr>)
   \<and> getRegistrationId toyEnv
         ((connectedClient toyModule)
            \<lparr>registrationId := ''aebagaaaaaaaaaaaaaaaaaaaaaaaaaaaaaaaaaaaaaaaaaaaaaaa''\<rparr>)
     = Some (Returned (Str ''aebagaaaaaaaaaaaaaaaaaaaaaaaaaaaaaaaaaaaaaaaaaaaaaaa''),
             (connectedClient toyModule)
               \<lparr>registrationId := ''aebagaaaaaaaaaaaaaaaaaaaaaaaaaaaaaaaaaaaaaaaaaaaaaaa''\<rparr>)"
proof -
  have s: "registrationId (newClient (Some ''abc123'') toyModule) \<noteq> []"
    and s': "registrationId (newClient (Some ''abc123'') toyModule) = ''abc123''"
    by (simp_all add: newClient_def)
  have n: "registrationId (newClient None toyModule) = []"
    by (simp add: newClient_def)
  have k: "getEndorsementKey toyEnv (newClient None toyModule)
             = Some (Returned (Buf [1, 2, 3]), connectedClient toyModule)"
    by (simp add: client_defs toy_defs tpm_defs const_defs Let_def ekTemplate_def)
  have d: "sha256 toyEnv [1, 2, 3] \<noteq> []"
    by (simp add: toyEnv_def)
  show ?thesis
    using registrationId_supplied_or_derived
            [of "newClient (Some ''abc123'') toyModule" toyEnv]
          registrationId_supplied_or_derived
            [of "newClient None toyModule" toyEnv _ _ "[1, 2, 3]" "connectedClient toyModule"]
          s s' n k d
    by (simp add: toy_registrationId)
qed

subsection \<open>Deferred inputs\<close>













end
